theory Spec2Isabelle
  imports Complex_Main "HOL-Library.AList" "HOL-Library.Sublist"
begin

section \<open>Strings and numbers of the host language\<close>

text \<open>
  A string is a list of code units. The code units of this development are the 256
  characters of Latin-1 (U+0000 to U+00FF), one \<^typ>\<open>char\<close> each. Non-negative
  integers are natural numbers: the host language's numbers represent them exactly
  below \<open>2 ^ 53\<close>, and the counters of this program (sibling positions, numeric
  ID suffixes) are taken to stay in that range.
\<close>

definition isDigit :: "char \<Rightarrow> bool" where
  "isDigit c = (48 \<le> (of_char c :: nat) \<and> (of_char c :: nat) \<le> 57)"

definition digitVal :: "char \<Rightarrow> nat" where
  "digitVal c = of_char c - 48"

text \<open>\<open>parseInt(ds, 10)\<close> on a string of decimal digits.\<close>

definition parseInt10 :: "string \<Rightarrow> nat" where
  "parseInt10 ds = foldl (\<lambda>acc c. 10 * acc + digitVal c) 0 ds"

definition digitChar :: "nat \<Rightarrow> char" where
  "digitChar d = char_of (48 + d)"

text \<open>The decimal rendering of a non-negative integer in a template string.\<close>

fun showNat :: "nat \<Rightarrow> string" where
  "showNat n = (if n < 10 then [digitChar n] else showNat (n div 10) @ [digitChar (n mod 10)])"

declare showNat.simps [simp del]

text \<open>
  White space as \<open>String.prototype.trim\<close> and the regular-expression class \<open>\s\<close>
  see it, within Latin-1: tab, line feed, vertical tab, form feed, carriage return,
  space and the no-break space.
\<close>

definition isSpace :: "char \<Rightarrow> bool" where
  "isSpace c = ((of_char c :: nat) \<in> {9, 10, 11, 12, 13, 32, 160})"

definition trim :: "string \<Rightarrow> string" where
  "trim s = rev (dropWhile isSpace (rev (dropWhile isSpace s)))"

text \<open>\<open>String.prototype.toLowerCase\<close> on Latin-1.\<close>

definition toLowerChar :: "char \<Rightarrow> char" where
  "toLowerChar c =
     (let n = (of_char c :: nat)
      in if (65 \<le> n \<and> n \<le> 90) \<or> (192 \<le> n \<and> n \<le> 222 \<and> n \<noteq> 215)
         then char_of (n + 32) else c)"

definition toLowerCase :: "string \<Rightarrow> string" where
  "toLowerCase s = map toLowerChar s"

text \<open>
  \<open>normalize('NFD')\<close> followed by the removal of the combining marks U+0300 to U+036F,
  on Latin-1: a letter with
  a canonical decomposition is replaced by its base letter, the combining marks of
  the decomposition being removed at once (they lie outside Latin-1). The letters
  without a canonical decomposition (\<open>AE\<close>, eth, o with stroke, thorn, sharp s) and
  the symbols stay.
\<close>

definition baseLetter :: "char \<Rightarrow> char" where
  "baseLetter c =
     (let n = (of_char c :: nat)
      in if 192 \<le> n \<and> n \<le> 197 then CHR ''A''
         else if n = 199 then CHR ''C''
         else if 200 \<le> n \<and> n \<le> 203 then CHR ''E''
         else if 204 \<le> n \<and> n \<le> 207 then CHR ''I''
         else if n = 209 then CHR ''N''
         else if 210 \<le> n \<and> n \<le> 214 then CHR ''O''
         else if 217 \<le> n \<and> n \<le> 220 then CHR ''U''
         else if n = 221 then CHR ''Y''
         else if 224 \<le> n \<and> n \<le> 229 then CHR ''a''
         else if n = 231 then CHR ''c''
         else if 232 \<le> n \<and> n \<le> 235 then CHR ''e''
         else if 236 \<le> n \<and> n \<le> 239 then CHR ''i''
         else if n = 241 then CHR ''n''
         else if 242 \<le> n \<and> n \<le> 246 then CHR ''o''
         else if 249 \<le> n \<and> n \<le> 252 then CHR ''u''
         else if n = 253 \<or> n = 255 then CHR ''y''
         else c)"

definition stripDiacritics :: "string \<Rightarrow> string" where
  "stripDiacritics s = map baseLetter s"

definition isLowerAlnum :: "char \<Rightarrow> bool" where
  "isLowerAlnum c =
     (let n = (of_char c :: nat) in (97 \<le> n \<and> n \<le> 122) \<or> (48 \<le> n \<and> n \<le> 57))"

text \<open>\<open>s.replace(/[^a-z0-9]+/g, ' ')\<close>: every maximal run of other characters becomes one space.\<close>

function replaceNonAlnum :: "string \<Rightarrow> string" where
  "replaceNonAlnum [] = []"
| "replaceNonAlnum (c # cs) =
     (if isLowerAlnum c then c # replaceNonAlnum cs
      else CHR '' '' # replaceNonAlnum (dropWhile (\<lambda>x. \<not> isLowerAlnum x) cs))"
  by pat_completeness auto
termination
  by (relation "measure length") (auto simp: length_dropWhile_le less_Suc_eq_le)

text \<open>\<open>s.split(/\s+/)\<close>: the pieces between maximal runs of white space.\<close>

function splitWs :: "string \<Rightarrow> string list" where
  "splitWs s =
     (case dropWhile (\<lambda>c. \<not> isSpace c) s of
        [] \<Rightarrow> [s]
      | c # r \<Rightarrow> takeWhile (\<lambda>c. \<not> isSpace c) s # splitWs (dropWhile isSpace r))"
  by pat_completeness auto
termination
proof (relation "measure length")
  show "wf (measure length)" by simp
next
  fix s :: string and c r
  assume "dropWhile (\<lambda>c. \<not> isSpace c) s = c # r"
  then have "length (c # r) \<le> length s"
    by (metis length_dropWhile_le)
  moreover have "length (dropWhile isSpace r) \<le> length r"
    by (rule length_dropWhile_le)
  ultimately show "(dropWhile isSpace r, s) \<in> measure length" by simp
qed

declare splitWs.simps [simp del]

text \<open>\<open>xs.join(sep)\<close>.\<close>

fun joinWith :: "string \<Rightarrow> string list \<Rightarrow> string" where
  "joinWith sep [] = []"
| "joinWith sep [x] = x"
| "joinWith sep (x # y # ys) = x @ sep @ joinWith sep (y # ys)"

section \<open>ID generation\<close>

text \<open>
  \<open>pattern.exec(id)\<close> for the pattern \<open>^escaped-(\d+)$\<close>, where \<open>escaped\<close> is
  the prefix with every regular-expression metacharacter escaped, so that it matches
  the prefix literally. The result is the captured digit string.
\<close>

definition matchNumbered :: "string \<Rightarrow> string \<Rightarrow> string option" where
  "matchNumbered pfx ident =
     (let p = pfx @ ''-''; ds = drop (length p) ident
      in if take (length p) ident = p \<and> ds \<noteq> [] \<and> list_all isDigit ds then Some ds else None)"

text \<open>
  The set of existing IDs is iterated in insertion order; it is a list here, and
  membership is membership in the list.
\<close>

definition generateId :: "string \<Rightarrow> string list \<Rightarrow> string" where
  "generateId pfx existingIds =
     (if pfx \<notin> set existingIds then pfx
      else
        let mx = foldl (\<lambda>m ident.
                   case matchNumbered pfx ident of
                     None \<Rightarrow> m
                   | Some ds \<Rightarrow> (let num = parseInt10 ds in if num > m then num else m))
                 0 existingIds
        in pfx @ ''-'' @ showNat (mx + 1))"

text \<open>An absent and an empty \<open>parentId\<close> are both falsy.\<close>

definition generateFieldId :: "string \<Rightarrow> string list \<Rightarrow> string option \<Rightarrow> string" where
  "generateFieldId fieldType existingIds parentId =
     (let pfx =
        (case parentId of
           Some p \<Rightarrow> if p \<noteq> [] then p @ ''-'' @ fieldType
                     else if fieldType \<noteq> [] then fieldType else ''field''
         | None \<Rightarrow> if fieldType \<noteq> [] then fieldType else ''field'')
      in generateId pfx existingIds)"

definition scopedPrefix :: "string option \<Rightarrow> string \<Rightarrow> string" where
  "scopedPrefix fieldId kind =
     (case fieldId of
        Some f \<Rightarrow> if f \<noteq> [] then f @ ''-'' @ kind else kind
      | None \<Rightarrow> kind)"

definition generateOptionId :: "string list \<Rightarrow> string option \<Rightarrow> string" where
  "generateOptionId existingIds fieldId = generateId (scopedPrefix fieldId ''option'') existingIds"

definition generateRowId :: "string list \<Rightarrow> string option \<Rightarrow> string" where
  "generateRowId existingIds fieldId = generateId (scopedPrefix fieldId ''row'') existingIds"

definition generateColumnId :: "string list \<Rightarrow> string option \<Rightarrow> string" where
  "generateColumnId existingIds fieldId = generateId (scopedPrefix fieldId ''col'') existingIds"


section \<open>Data model\<close>

subsection \<open>Options, matrix rows and columns\<close>

record FieldOption =
  option_id :: string
  option_value :: string
  option_text :: "string option"

record MatrixRow =
  row_id :: string
  row_value :: string

record MatrixColumn =
  column_id :: string
  column_value :: string

subsection \<open>Conditional rules\<close>

datatype LogicMode = AND | OR

datatype ConditionOperator =
  Equals | NotEquals | Contains | Includes | Empty | NotEmpty
| GreaterThan | GreaterThanOrEqual | LessThan | LessThanOrEqual

datatype ConditionalEffect = Visible | Enable | Required

record Condition =
  targetId :: string
  operator :: ConditionOperator
  expected :: string
  propertyAccessor :: "string option"

record ConditionalRule =
  effect :: ConditionalEffect
  logic :: LogicMode
  conditions :: "Condition list"

subsection \<open>Field definitions\<close>

text \<open>
  A field definition without its nested \<open>fields\<close>: the attributes of the wide
  interface, each optional one an \<^typ>\<open>'a option\<close>. Field types, input types and
  display formats are the strings they are at run time, so that a type unknown to the
  registry can be written. The two adapter attributes have no declared type and are
  carried as opaque text.
\<close>

record FieldDef =
  field_id :: string
  fieldType :: string
  question :: "string option"
  required :: "bool option"
  rules :: "ConditionalRule list option"
  inputType :: "string option"
  unit_label :: "string option"
  options :: "FieldOption list option"
  rows :: "MatrixRow list option"
  columns :: "MatrixColumn list option"
  htmlContent :: "string option"
  imageUri :: "string option"
  expression :: "string option"
  displayFormat :: "string option"
  decimalPlaces :: "int option"
  title :: "string option"
  sourceData :: "string option"
  conversionWarnings :: "string list option"

text \<open>A node of the authored tree: the attributes and, when present, the nested \<open>fields\<close>.\<close>

datatype FieldDefinition =
  FieldDefinition (attrs: FieldDef) (fields: "FieldDefinition list option")

text \<open>
  A partial definition, as taken by \<open>updateField\<close>, by the \<open>patch\<close> of \<open>addField\<close>
  and as the default properties of a field type: an absent key is \<open>None\<close>.
\<close>

record FieldPatch =
  patch_id :: "string option"
  patch_fieldType :: "string option"
  patch_question :: "string option"
  patch_required :: "bool option"
  patch_rules :: "ConditionalRule list option"
  patch_inputType :: "string option"
  patch_unit_label :: "string option"
  patch_options :: "FieldOption list option"
  patch_rows :: "MatrixRow list option"
  patch_columns :: "MatrixColumn list option"
  patch_htmlContent :: "string option"
  patch_imageUri :: "string option"
  patch_expression :: "string option"
  patch_displayFormat :: "string option"
  patch_decimalPlaces :: "int option"
  patch_title :: "string option"
  patch_sourceData :: "string option"
  patch_conversionWarnings :: "string list option"

definition emptyPatch :: FieldPatch where
  "emptyPatch =
     \<lparr> patch_id = None, patch_fieldType = None, patch_question = None, patch_required = None,
       patch_rules = None, patch_inputType = None, patch_unit_label = None, patch_options = None,
       patch_rows = None, patch_columns = None, patch_htmlContent = None, patch_imageUri = None,
       patch_expression = None, patch_displayFormat = None, patch_decimalPlaces = None,
       patch_title = None, patch_sourceData = None, patch_conversionWarnings = None \<rparr>"

text \<open>A key of the right-hand object of a spread overrides the key of the left-hand one.\<close>

definition override :: "'a option \<Rightarrow> 'a option \<Rightarrow> 'a option" where
  "override new old = (case new of Some v \<Rightarrow> Some v | None \<Rightarrow> old)"

text \<open>\<open>{ ...def, ...patch }\<close>.\<close>

definition applyPatch :: "FieldDef \<Rightarrow> FieldPatch \<Rightarrow> FieldDef" where
  "applyPatch d p =
     \<lparr> field_id = (case patch_id p of Some v \<Rightarrow> v | None \<Rightarrow> field_id d),
       fieldType = (case patch_fieldType p of Some v \<Rightarrow> v | None \<Rightarrow> fieldType d),
       question = override (patch_question p) (question d),
       required = override (patch_required p) (required d),
       rules = override (patch_rules p) (rules d),
       inputType = override (patch_inputType p) (inputType d),
       unit_label = override (patch_unit_label p) (unit_label d),
       options = override (patch_options p) (options d),
       rows = override (patch_rows p) (rows d),
       columns = override (patch_columns p) (columns d),
       htmlContent = override (patch_htmlContent p) (htmlContent d),
       imageUri = override (patch_imageUri p) (imageUri d),
       expression = override (patch_expression p) (expression d),
       displayFormat = override (patch_displayFormat p) (displayFormat d),
       decimalPlaces = override (patch_decimalPlaces p) (decimalPlaces d),
       title = override (patch_title p) (title d),
       sourceData = override (patch_sourceData p) (sourceData d),
       conversionWarnings = override (patch_conversionWarnings p) (conversionWarnings d) \<rparr>"

text \<open>\<open>{ ...patch, id, fieldType }\<close> over no definition at all: the keys of the patch.\<close>

definition defOfPatch :: "string \<Rightarrow> string \<Rightarrow> FieldPatch \<Rightarrow> FieldDef" where
  "defOfPatch i t p =
     \<lparr> field_id = i, fieldType = t,
       question = patch_question p, required = patch_required p, rules = patch_rules p,
       inputType = patch_inputType p, unit_label = patch_unit_label p,
       options = patch_options p, rows = patch_rows p, columns = patch_columns p,
       htmlContent = patch_htmlContent p, imageUri = patch_imageUri p,
       expression = patch_expression p, displayFormat = patch_displayFormat p,
       decimalPlaces = patch_decimalPlaces p, title = patch_title p,
       sourceData = patch_sourceData p, conversionWarnings = patch_conversionWarnings p \<rparr>"

text \<open>The minimal leaf \<open>{ id, fieldType }\<close>.\<close>

definition bareField :: "string \<Rightarrow> string \<Rightarrow> FieldDef" where
  "bareField i t = defOfPatch i t emptyPatch"

subsection \<open>The normalized index\<close>

record FieldNode =
  defn :: FieldDef
  parentId :: "string option"
  childIds :: "string list"
  index :: nat

text \<open>
  An object used as a dictionary is an association list with distinct keys, in the
  order of insertion: \<^const>\<open>map_of\<close> reads a key, \<^const>\<open>AList.update\<close> assigns one
  (in place when the key exists, at the end otherwise) and \<^const>\<open>AList.delete\<close>
  removes one.
\<close>

type_synonym ById = "(string \<times> FieldNode) list"

record NormalizedDefinition =
  byId :: ById
  rootIds :: "string list"

subsection \<open>Responses\<close>

record SelectedOption =
  selected_id :: string
  selected_value :: string

datatype MatrixCell = CellOne SelectedOption | CellMany "SelectedOption list"

datatype Selected =
  SelectedOne SelectedOption
| SelectedMany "SelectedOption list"
| SelectedMatrix "(string \<times> MatrixCell) list"

text \<open>
  The numbers of the host language are IEEE 754 doubles. A finite double is the rational
  number it stands for (the two zeros are one), the infinities are values of their own,
  and the not-a-number is the absence of a number. The operations round their exact
  result to the nearest double (see \<open>roundToDouble\<close> below).
\<close>

datatype jsnum = Fin rat | PosInf | NegInf

text \<open>
  The values that are not numbers, as far as the evaluation of conditions looks at
  them: an array by the texts of its elements, an object by its keys.
\<close>

datatype plain = PNull | PStr string | PBool bool | PArr "string list" | PObj "string list"

datatype jsval = JNum jsnum | JVal plain

text \<open>
  The \<open>answer\<close> of a response is declared a string and is tested at run time for
  other scalars as well, so it is any value here.
\<close>

record FieldResponse =
  answer :: "jsval option"
  selected :: "Selected option"
  multitextAnswers :: "(string \<times> string) list option"
  signatureData :: "string option"
  signatureImage :: "string option"
  markupData :: "string option"
  markupImage :: "string option"

type_synonym FormResponse = "(string \<times> FieldResponse) list"

definition emptyResponse :: FieldResponse where
  "emptyResponse =
     \<lparr> answer = None, selected = None, multitextAnswers = None, signatureData = None,
       signatureImage = None, markupData = None, markupImage = None \<rparr>"

section \<open>Normalization: tree to flat index and back\<close>

text \<open>
  The walk of \<open>normalizeDefinition\<close>. The source fills one shared \<open>byId\<close> object while it
  walks; here the object is passed along and returned. A node's children are walked, and
  so written, before the node itself.
\<close>

fun walk :: "FieldDefinition list \<Rightarrow> string option \<Rightarrow> nat \<Rightarrow> ById \<Rightarrow> string list \<times> ById" where
  "walk [] parent i b = ([], b)"
| "walk (FieldDefinition a None # ds) parent i b =
     (let b2 = AList.update (field_id a)
                 \<lparr> defn = a, parentId = parent, childIds = [], index = i \<rparr> b;
          (ids, b3) = walk ds parent (Suc i) b2
      in (field_id a # ids, b3))"
| "walk (FieldDefinition a (Some children) # ds) parent i b =
     (let (cids, b1) =
            (if fieldType a = ''section'' then walk children (Some (field_id a)) 0 b
             else ([], b));
          b2 = AList.update (field_id a)
                 \<lparr> defn = a, parentId = parent, childIds = cids, index = i \<rparr> b1;
          (ids, b3) = walk ds parent (Suc i) b2
      in (field_id a # ids, b3))"

definition normalizeDefinition :: "FieldDefinition list \<Rightarrow> NormalizedDefinition" where
  "normalizeDefinition fs = (let (ids, b) = walk fs None 0 [] in \<lparr> byId = b, rootIds = ids \<rparr>)"

text \<open>
  \<open>build\<close> of \<open>hydrateDefinition\<close> follows the child IDs of the index, so on an index
  with a cycle it calls itself without end and the host raises a stack overflow. The
  first argument bounds the nesting of the calls; \<open>None\<close> is the overflow. A nesting
  deeper than the number of entries passes through some entry twice and never ends, so
  that number, plus one for the outermost call, is given.
\<close>

fun build :: "nat \<Rightarrow> ById \<Rightarrow> string list \<Rightarrow> FieldDefinition list option" where
  "build 0 b ids = None"
| "build (Suc f) b [] = Some []"
| "build (Suc f) b (i # ids) =
     (case map_of b i of
        None \<Rightarrow>
          (case build (Suc f) b ids of
             None \<Rightarrow> None
           | Some rest \<Rightarrow> Some (FieldDefinition (bareField i ''text'') None # rest))
      | Some node \<Rightarrow>
          if childIds node \<noteq> [] then
            (case build f b (childIds node) of
               None \<Rightarrow> None
             | Some ch \<Rightarrow>
                 (case build (Suc f) b ids of
                    None \<Rightarrow> None
                  | Some rest \<Rightarrow> Some (FieldDefinition (defn node) (Some ch) # rest)))
          else
            (case build (Suc f) b ids of
               None \<Rightarrow> None
             | Some rest \<Rightarrow> Some (FieldDefinition (defn node) None # rest)))"

definition hydrateDefinition :: "NormalizedDefinition \<Rightarrow> FieldDefinition list option" where
  "hydrateDefinition n = build (Suc (length (byId n))) (byId n) (rootIds n)"

subsection \<open>Well-formed trees\<close>

text \<open>The IDs of a tree and of a list of trees, nested ones included.\<close>

fun allIds :: "FieldDefinition \<Rightarrow> string list"
  and allIdsL :: "FieldDefinition list \<Rightarrow> string list" where
  "allIds (FieldDefinition a None) = [field_id a]"
| "allIds (FieldDefinition a (Some cs)) = field_id a # allIdsL cs"
| "allIdsL [] = []"
| "allIdsL (t # ts) = allIds t @ allIdsL ts"

text \<open>Only a section has nested fields.\<close>

fun onlySections :: "FieldDefinition \<Rightarrow> bool"
  and onlySectionsL :: "FieldDefinition list \<Rightarrow> bool" where
  "onlySections (FieldDefinition a None) = True"
| "onlySections (FieldDefinition a (Some cs)) = (fieldType a = ''section'' \<and> onlySectionsL cs)"
| "onlySectionsL [] = True"
| "onlySectionsL (t # ts) = (onlySections t \<and> onlySectionsL ts)"

text \<open>
  A well-formed tree: no ID occurs twice anywhere in it, and its leaves are leaves.
\<close>

definition wellFormed :: "FieldDefinition list \<Rightarrow> bool" where
  "wellFormed ts = (distinct (allIdsL ts) \<and> onlySectionsL ts)"

text \<open>No node has a \<open>fields\<close> list that is present and empty.\<close>

fun noEmptyFields :: "FieldDefinition \<Rightarrow> bool"
  and noEmptyFieldsL :: "FieldDefinition list \<Rightarrow> bool" where
  "noEmptyFields (FieldDefinition a None) = True"
| "noEmptyFields (FieldDefinition a (Some cs)) = (cs \<noteq> [] \<and> noEmptyFieldsL cs)"
| "noEmptyFieldsL [] = True"
| "noEmptyFieldsL (t # ts) = (noEmptyFields t \<and> noEmptyFieldsL ts)"

text \<open>The same tree with every empty \<open>fields\<close> list left out.\<close>

fun dropEmptyFields :: "FieldDefinition \<Rightarrow> FieldDefinition"
  and dropEmptyFieldsL :: "FieldDefinition list \<Rightarrow> FieldDefinition list" where
  "dropEmptyFields (FieldDefinition a None) = FieldDefinition a None"
| "dropEmptyFields (FieldDefinition a (Some cs)) =
     (if cs = [] then FieldDefinition a None else FieldDefinition a (Some (dropEmptyFieldsL cs)))"
| "dropEmptyFieldsL [] = []"
| "dropEmptyFieldsL (t # ts) = dropEmptyFields t # dropEmptyFieldsL ts"

text \<open>The depth of nesting.\<close>

fun depth :: "FieldDefinition \<Rightarrow> nat"
  and depthL :: "FieldDefinition list \<Rightarrow> nat" where
  "depth (FieldDefinition a None) = 1"
| "depth (FieldDefinition a (Some cs)) = Suc (depthL cs)"
| "depthL [] = 0"
| "depthL (t # ts) = max (depth t) (depthL ts)"

section \<open>Conditional logic\<close>

subsection \<open>Numbers\<close>

text \<open>
  Rounding of an exact value to a double: to the nearest number with a significand of
  53 bits, ties to the even significand, with the smallest exponent \<open>-1022\<close> (below it
  the spacing stays \<open>2 ^ -1074\<close>) and overflow to an infinity from \<open>2 ^ 1024\<close> on.
\<close>

fun bitLength :: "nat \<Rightarrow> nat" where
  "bitLength n = (if n = 0 then 0 else Suc (bitLength (n div 2)))"

declare bitLength.simps [simp del]

text \<open>For a positive \<open>a\<close>, the exponent \<open>e\<close> with \<open>2 ^ e \<le> a < 2 ^ (e + 1)\<close>.\<close>

definition floorLog2 :: "rat \<Rightarrow> int" where
  "floorLog2 a =
     (let (n, d) = quotient_of a;
          e0 = int (bitLength (nat n)) - int (bitLength (nat d))
      in if 2 powi e0 \<le> a then e0 else e0 - 1)"

definition roundHalfEven :: "rat \<Rightarrow> int" where
  "roundHalfEven x =
     (let f = \<lfloor>x\<rfloor>; r = x - of_int f
      in if r < 1 / 2 then f
         else if r > 1 / 2 then f + 1
         else if even f then f else f + 1)"

definition roundToDouble :: "rat \<Rightarrow> jsnum" where
  "roundToDouble q =
     (if q = 0 then Fin 0
      else
        let a = \<bar>q\<bar>;
            e = max (floorLog2 a) (- 1022);
            u = 2 powi (e - 52);
            r = of_int (roundHalfEven (a / u)) * u
        in if r \<ge> 2 ^ 1024 then (if q < 0 then NegInf else PosInf)
           else Fin (if q < 0 then - r else r))"

text \<open>
  \<open>parseFloat\<close>: leading white space is skipped and the longest prefix that is a
  decimal literal (or \<open>Infinity\<close>) is read and rounded; \<open>None\<close> is the
  not-a-number.
\<close>

definition isPrefixOf :: "string \<Rightarrow> string \<Rightarrow> bool" where
  "isPrefixOf p s = (take (length p) s = p)"

definition parseExponent :: "string \<Rightarrow> int" where
  "parseExponent s =
     (case s of
        [] \<Rightarrow> 0
      | c # r \<Rightarrow>
          if c = CHR ''e'' \<or> c = CHR ''E'' then
            (case r of
               [] \<Rightarrow> 0
             | d # r' \<Rightarrow>
                 if d = CHR ''+'' then
                   (if takeWhile isDigit r' = [] then 0 else int (parseInt10 (takeWhile isDigit r')))
                 else if d = CHR ''-'' then
                   (if takeWhile isDigit r' = [] then 0 else - int (parseInt10 (takeWhile isDigit r')))
                 else
                   (if takeWhile isDigit r = [] then 0 else int (parseInt10 (takeWhile isDigit r))))
          else 0)"

definition parseUnsigned :: "string \<Rightarrow> rat option" where
  "parseUnsigned s =
     (let ip = takeWhile isDigit s; r1 = dropWhile isDigit s;
          fp = (case r1 of [] \<Rightarrow> [] | c # r \<Rightarrow> if c = CHR ''.'' then takeWhile isDigit r else []);
          r2 = (case r1 of [] \<Rightarrow> [] | c # r \<Rightarrow> if c = CHR ''.'' then dropWhile isDigit r else r1)
      in if ip = [] \<and> fp = [] then None
         else Some ((of_nat (parseInt10 ip) + of_nat (parseInt10 fp) / 10 ^ length fp)
                     * 10 powi parseExponent r2))"

definition parseFloat :: "string \<Rightarrow> jsnum option" where
  "parseFloat s =
     (let t = dropWhile isSpace s;
          neg = (case t of [] \<Rightarrow> False | c # _ \<Rightarrow> c = CHR ''-'');
          u = (case t of [] \<Rightarrow> [] | c # r \<Rightarrow> if c = CHR ''-'' \<or> c = CHR ''+'' then r else t)
      in if isPrefixOf ''Infinity'' u then Some (if neg then NegInf else PosInf)
         else (case parseUnsigned u of
                 None \<Rightarrow> None
               | Some q \<Rightarrow> Some (roundToDouble (if neg then - q else q))))"

text \<open>Comparison of two numbers, neither of them the not-a-number.\<close>

fun numLess :: "jsnum \<Rightarrow> jsnum \<Rightarrow> bool" where
  "numLess (Fin a) (Fin b) = (a < b)"
| "numLess (Fin a) PosInf = True"
| "numLess (Fin a) NegInf = False"
| "numLess PosInf b = False"
| "numLess NegInf NegInf = False"
| "numLess NegInf (Fin b) = True"
| "numLess NegInf PosInf = True"

definition numLessEq :: "jsnum \<Rightarrow> jsnum \<Rightarrow> bool" where
  "numLessEq a b = (numLess a b \<or> a = b)"

text \<open>
  \<open>Math.abs(a - b)\<close>: the difference is rounded, and the difference of two equal
  infinities is the not-a-number.
\<close>

fun absDiff :: "jsnum \<Rightarrow> jsnum \<Rightarrow> jsnum option" where
  "absDiff (Fin a) (Fin b) = Some (roundToDouble \<bar>a - b\<bar>)"
| "absDiff PosInf PosInf = None"
| "absDiff NegInf NegInf = None"
| "absDiff PosInf NegInf = Some PosInf"
| "absDiff NegInf PosInf = Some PosInf"
| "absDiff (Fin a) PosInf = Some PosInf"
| "absDiff (Fin a) NegInf = Some PosInf"
| "absDiff PosInf (Fin b) = Some PosInf"
| "absDiff NegInf (Fin b) = Some PosInf"

text \<open>\<open>Number.EPSILON\<close> is \<open>2 ^ -52\<close>.\<close>

definition EPSILON :: rat where
  "EPSILON = 1 / 2 ^ 52"

definition NUMERIC_OPERATORS :: "ConditionOperator set" where
  "NUMERIC_OPERATORS = {GreaterThan, GreaterThanOrEqual, LessThan, LessThanOrEqual}"

text \<open>A comparison with the not-a-number is false, whichever way it goes.\<close>

fun evaluateNumeric :: "jsnum \<Rightarrow> jsnum \<Rightarrow> ConditionOperator \<Rightarrow> bool" where
  "evaluateNumeric a e Equals =
     (case absDiff a e of None \<Rightarrow> False | Some d \<Rightarrow> numLess d (Fin (EPSILON * 10)))"
| "evaluateNumeric a e NotEquals =
     (case absDiff a e of None \<Rightarrow> False | Some d \<Rightarrow> numLessEq (Fin (EPSILON * 10)) d)"
| "evaluateNumeric a e GreaterThan = numLess e a"
| "evaluateNumeric a e GreaterThanOrEqual = numLessEq e a"
| "evaluateNumeric a e LessThan = numLess a e"
| "evaluateNumeric a e LessThanOrEqual = numLessEq a e"
| "evaluateNumeric a e other = False"

subsection \<open>The actual value of a response\<close>

text \<open>\<open>String(v)\<close> for a value that is not a number.\<close>

fun stringOf :: "plain \<Rightarrow> string" where
  "stringOf PNull = ''null''"
| "stringOf (PStr s) = s"
| "stringOf (PBool b) = (if b then ''true'' else ''false'')"
| "stringOf (PArr xs) = joinWith '','' xs"
| "stringOf (PObj ks) = ''[object Object]''"

text \<open>The value found under the row \<open>id\<close> of a matrix answer, were it read as a single selection.\<close>

fun cellValue :: "MatrixCell \<Rightarrow> jsval" where
  "cellValue (CellOne s) = JVal (PObj [''id'', ''value''])"
| "cellValue (CellMany xs) = JVal (PArr (map (\<lambda>_. ''[object Object]'') xs))"

definition getActualValue :: "FieldDef \<Rightarrow> FieldResponse option \<Rightarrow> jsval" where
  "getActualValue d response =
     (case response of
        None \<Rightarrow> JVal PNull
      | Some r \<Rightarrow>
          if fieldType d \<in> {''text'', ''longtext'', ''expression''} then
            (case answer r of None \<Rightarrow> JVal (PStr '''') | Some (JVal PNull) \<Rightarrow> JVal (PStr '''') | Some v \<Rightarrow> v)
          else if fieldType d = ''multitext'' then
            (case multitextAnswers r of Some m \<Rightarrow> JVal (PArr (map snd m)) | None \<Rightarrow> JVal (PArr []))
          else if fieldType d \<in> {''radio'', ''dropdown'', ''boolean'', ''slider'', ''rating''} then
            (case selected r of
               Some (SelectedOne s) \<Rightarrow> JVal (PStr (selected_id s))
             | Some (SelectedMatrix m) \<Rightarrow>
                 (case map_of m ''id'' of Some c \<Rightarrow> cellValue c | None \<Rightarrow> JVal PNull)
             | _ \<Rightarrow> JVal PNull)
          else if fieldType d \<in> {''check'', ''multiselectdropdown'', ''ranking''} then
            (case selected r of
               Some (SelectedMany xs) \<Rightarrow> JVal (PArr (map selected_id xs))
             | _ \<Rightarrow> JVal (PArr []))
          else if fieldType d \<in> {''singlematrix'', ''multimatrix''} then
            (case selected r of
               Some (SelectedOne s) \<Rightarrow> JVal (PObj [''id'', ''value''])
             | Some (SelectedMatrix m) \<Rightarrow> JVal (PObj (map fst m))
             | _ \<Rightarrow> JVal (PObj []))
          else JVal PNull)"

definition applyPropertyAccessor :: "jsval \<Rightarrow> string \<Rightarrow> nat" where
  "applyPropertyAccessor v accessor =
     (let prop = toLowerCase accessor
      in if prop \<noteq> ''length'' \<and> prop \<noteq> ''count'' then 0
         else (case v of
                 JVal (PArr xs) \<Rightarrow> length xs
               | JVal (PStr s) \<Rightarrow> length s
               | JVal (PObj ks) \<Rightarrow> length ks
               | _ \<Rightarrow> 0))"

text \<open>The text of a number is never empty, so a number never is.\<close>

fun isEmpty :: "jsval \<Rightarrow> bool" where
  "isEmpty (JVal PNull) = True"
| "isEmpty (JVal (PArr xs)) = (xs = [])"
| "isEmpty (JVal (PObj ks)) = (ks = [])"
| "isEmpty (JNum n) = False"
| "isEmpty (JVal v) = (trim (stringOf v) = [])"

subsection \<open>The contains operator\<close>

definition normalizeForContains :: "string \<Rightarrow> string" where
  "normalizeForContains s = trim (replaceNonAlnum (toLowerCase (stripDiacritics s)))"

text \<open>
  The test of the pattern \<open>(?:^|\s)p1\s+p2 ... \s+pn(?:\s|$)\<close>, each part escaped and
  so matched literally. \<open>matchParts\<close> matches \<open>p1\s+ ... pn(?:\s|$)\<close> at the start of
  the text, \<open>matchGap\<close> a run of white space and then the parts that are left;
  \<open>searchParts\<close> tries every position that follows a white-space character, and the
  start of the text is tried as well.
\<close>

definition endOfWord :: "string \<Rightarrow> bool" where
  "endOfWord s = (case s of [] \<Rightarrow> True | c # _ \<Rightarrow> isSpace c)"

fun matchParts :: "string list \<Rightarrow> string \<Rightarrow> bool"
  and matchGap :: "string list \<Rightarrow> string \<Rightarrow> bool" where
  "matchParts [] s = endOfWord s"
| "matchParts [p] s = (isPrefixOf p s \<and> endOfWord (drop (length p) s))"
| "matchParts (p # q # ps) s = (isPrefixOf p s \<and> matchGap (q # ps) (drop (length p) s))"
| "matchGap ps [] = False"
| "matchGap ps (c # s) = (isSpace c \<and> (matchParts ps s \<or> matchGap ps s))"

fun searchParts :: "string list \<Rightarrow> string \<Rightarrow> bool" where
  "searchParts ps [] = False"
| "searchParts ps (c # s) = ((isSpace c \<and> matchParts ps s) \<or> searchParts ps s)"

definition testPattern :: "string list \<Rightarrow> string \<Rightarrow> bool" where
  "testPattern ps hay = (matchParts ps hay \<or> searchParts ps hay)"

definition containsWords :: "string \<Rightarrow> string \<Rightarrow> bool" where
  "containsWords actualText expectedText =
     (let hay = normalizeForContains actualText;
          needle = normalizeForContains expectedText
      in if needle = [] then False else testPattern (splitWs needle) hay)"

subsection \<open>Conditions and rules\<close>

definition NUMERIC_EXPRESSION_FORMATS :: "string list" where
  "NUMERIC_EXPRESSION_FORMATS = [''number'', ''currency'', ''percentage'']"

text \<open>
  A numeric operator on a text that is not a number: the text is looked up as an
  option ID, and the number of the option's value, when it has one, takes its place.
\<close>

definition resolveOptionValue :: "ConditionOperator \<Rightarrow> FieldDef \<Rightarrow> jsval \<Rightarrow> jsval" where
  "resolveOptionValue oper d actual =
     (case actual of
        JVal (PStr s) \<Rightarrow>
          if oper \<in> NUMERIC_OPERATORS \<and> parseFloat s = None then
            (case options d of
               None \<Rightarrow> actual
             | Some opts \<Rightarrow>
                 (case find (\<lambda>opt. option_id opt = s) opts of
                    None \<Rightarrow> actual
                  | Some opt \<Rightarrow>
                      (case parseFloat (option_value opt) of
                         None \<Rightarrow> actual
                       | Some n \<Rightarrow> JNum n)))
          else actual
      | _ \<Rightarrow> actual)"

definition isNumber :: "jsval \<Rightarrow> bool" where
  "isNumber v = (case v of JNum _ \<Rightarrow> True | JVal _ \<Rightarrow> False)"

definition isNumericExpr :: "FieldDef \<Rightarrow> bool" where
  "isNumericExpr d =
     (fieldType d = ''expression'' \<and>
      (case displayFormat d of None \<Rightarrow> False | Some f \<Rightarrow> f \<in> set NUMERIC_EXPRESSION_FORMATS))"

definition isNumericText :: "FieldDef \<Rightarrow> bool" where
  "isNumericText d = (fieldType d = ''text'' \<and> inputType d = Some ''number'')"

definition isNumeric :: "ConditionOperator \<Rightarrow> jsval \<Rightarrow> FieldDef \<Rightarrow> bool" where
  "isNumeric oper actual d =
     (oper \<in> NUMERIC_OPERATORS \<or> isNumber actual \<or> isNumericExpr d \<or> isNumericText d)"

text \<open>\<open>typeof actual === 'number' ? actual : parseFloat(String(actual))\<close>.\<close>

definition toNumber :: "jsval \<Rightarrow> jsnum option" where
  "toNumber v = (case v of JNum n \<Rightarrow> Some n | JVal p \<Rightarrow> parseFloat (stringOf p))"

text \<open>\<open>String(actual ?? '')\<close> on the path of the values that are not numbers.\<close>

definition actualText :: "plain \<Rightarrow> string" where
  "actualText p = (case p of PNull \<Rightarrow> '''' | _ \<Rightarrow> stringOf p)"

definition isArray :: "plain \<Rightarrow> bool" where
  "isArray p = (case p of PArr _ \<Rightarrow> True | _ \<Rightarrow> False)"

text \<open>The operators on texts and arrays; a numeric operator never comes here.\<close>

definition evaluateText :: "ConditionOperator \<Rightarrow> plain \<Rightarrow> string \<Rightarrow> bool" where
  "evaluateText oper p expectedText =
     (case oper of
        Equals \<Rightarrow> if isArray p then False else actualText p = expectedText
      | NotEquals \<Rightarrow> if isArray p then True else actualText p \<noteq> expectedText
      | Contains \<Rightarrow> containsWords (actualText p) expectedText
      | Includes \<Rightarrow> (case p of PArr xs \<Rightarrow> expectedText \<in> set xs | _ \<Rightarrow> False)
      | _ \<Rightarrow> False)"

text \<open>
  The actual value of the target, with the property accessor applied when there is one;
  an absent and an empty accessor are both falsy.
\<close>

definition accessedValue :: "Condition \<Rightarrow> FieldDef \<Rightarrow> FieldResponse option \<Rightarrow> jsval" where
  "accessedValue condition d response =
     (case propertyAccessor condition of
        None \<Rightarrow> getActualValue d response
      | Some acc \<Rightarrow>
          if acc = [] then getActualValue d response
          else JNum (Fin (of_nat (applyPropertyAccessor (getActualValue d response) acc))))"

definition evaluateCondition :: "Condition \<Rightarrow> FieldDef \<Rightarrow> FieldResponse option \<Rightarrow> bool" where
  "evaluateCondition condition d response =
     (let actual1 = accessedValue condition d response
      in if operator condition = Empty then isEmpty actual1
         else if operator condition = NotEmpty then \<not> isEmpty actual1
         else
           let actual = resolveOptionValue (operator condition) d actual1
           in if isNumeric (operator condition) actual d then
                (case toNumber actual of
                   None \<Rightarrow> False
                 | Some actualNum \<Rightarrow>
                     (case parseFloat (expected condition) of
                        None \<Rightarrow> False
                      | Some expectedNum \<Rightarrow>
                          evaluateNumeric actualNum expectedNum (operator condition)))
              else
                (case actual of
                   JNum n \<Rightarrow> False
                 | JVal p \<Rightarrow> evaluateText (operator condition) p (expected condition)))"

text \<open>A condition of a rule: its target is looked up in the index and in the responses.\<close>

definition conditionResult :: "NormalizedDefinition \<Rightarrow> FormResponse \<Rightarrow> Condition \<Rightarrow> bool" where
  "conditionResult normalized responses cond =
     (case map_of (byId normalized) (targetId cond) of
        None \<Rightarrow> False
      | Some node \<Rightarrow> evaluateCondition cond (defn node) (map_of responses (targetId cond)))"

definition evaluateRule :: "ConditionalRule \<Rightarrow> NormalizedDefinition \<Rightarrow> FormResponse \<Rightarrow> bool" where
  "evaluateRule rule normalized responses =
     (if conditions rule = [] then True
      else
        let results = map (conditionResult normalized responses) (conditions rule)
        in if logic rule = OR then list_ex (\<lambda>r. r) results else list_all (\<lambda>r. r) results)"

subsection \<open>Effect resolution\<close>

definition EFFECT_DEFAULTS :: "ConditionalEffect \<Rightarrow> bool" where
  "EFFECT_DEFAULTS e = (case e of Visible \<Rightarrow> True | Enable \<Rightarrow> True | Required \<Rightarrow> False)"

definition resolveEffect ::
  "ConditionalEffect \<Rightarrow> FieldDef \<Rightarrow> NormalizedDefinition \<Rightarrow> FormResponse \<Rightarrow> bool" where
  "resolveEffect eff field normalized responses =
     (case rules field of
        None \<Rightarrow>
          if eff = Required then (case required field of None \<Rightarrow> False | Some r \<Rightarrow> r)
          else EFFECT_DEFAULTS eff
      | Some rs \<Rightarrow>
          let matching = filter (\<lambda>r. effect r = eff) rs
          in if matching = [] then
               (if eff = Required then (case required field of None \<Rightarrow> False | Some r \<Rightarrow> r)
                else EFFECT_DEFAULTS eff)
             else list_ex (\<lambda>rule. evaluateRule rule normalized responses) matching)"

section \<open>Validation\<close>

record ValidationError =
  error_fieldId :: string
  error_rule :: string
  error_message :: string

definition NON_INPUT_TYPES :: "string set" where
  "NON_INPUT_TYPES = {''section'', ''expression'', ''html'', ''image''}"

definition isResponseEmpty :: "FieldResponse option \<Rightarrow> bool" where
  "isResponseEmpty response =
     (case response of
        None \<Rightarrow> True
      | Some r \<Rightarrow>
          if (case answer r of
                None \<Rightarrow> False
              | Some (JVal PNull) \<Rightarrow> False
              | Some (JVal (PStr s)) \<Rightarrow> trim s \<noteq> []
              | Some v \<Rightarrow> True) then False
          else if (case selected r of
                     None \<Rightarrow> False
                   | Some (SelectedMany xs) \<Rightarrow> xs \<noteq> []
                   | Some (SelectedOne s) \<Rightarrow> True
                   | Some (SelectedMatrix m) \<Rightarrow> m \<noteq> []) then False
          else if (case multitextAnswers r of
                     None \<Rightarrow> False
                   | Some m \<Rightarrow> list_ex (\<lambda>v. trim v \<noteq> []) (map snd m)) then False
          else if (case signatureData r of None \<Rightarrow> False | Some s \<Rightarrow> s \<noteq> [] \<and> trim s \<noteq> []) then False
          else if (case markupData r of None \<Rightarrow> False | Some s \<Rightarrow> s \<noteq> [] \<and> trim s \<noteq> []) then False
          else True)"

definition requiredError :: "string \<Rightarrow> ValidationError" where
  "requiredError fieldId =
     \<lparr> error_fieldId = fieldId, error_rule = ''required'',
       error_message = ''This field is required'' \<rparr>"

definition validateField ::
  "string \<Rightarrow> NormalizedDefinition \<Rightarrow> FormResponse \<Rightarrow> ValidationError list" where
  "validateField fieldId normalized responses =
     (case map_of (byId normalized) fieldId of
        None \<Rightarrow> []
      | Some node \<Rightarrow>
          if fieldType (defn node) \<in> NON_INPUT_TYPES then []
          else if \<not> resolveEffect Visible (defn node) normalized responses then []
          else if resolveEffect Required (defn node) normalized responses
                  \<and> isResponseEmpty (map_of responses fieldId)
               then [requiredError fieldId]
               else [])"

definition validateForm :: "NormalizedDefinition \<Rightarrow> FormResponse \<Rightarrow> ValidationError list" where
  "validateForm normalized responses =
     concat (map (\<lambda>fieldId. validateField fieldId normalized responses) (map fst (byId normalized)))"

section \<open>The engine store\<close>

subsection \<open>The registry of field types\<close>

text \<open>
  The metadata of a field type, as far as the store reads it. The registry is a mutable
  table of the module; the operations that consult it take it as an argument. The
  default properties of a section hold an empty \<open>fields\<close> list, which \<open>addField\<close>
  removes before anything else and which is not kept here.
\<close>

record FieldTypeMeta =
  answerType :: string
  hasOptions :: bool
  hasMatrix :: bool
  defaultProps :: FieldPatch
  defaultOptionCount :: "nat option"

type_synonym FieldTypeRegistry = "(string \<times> FieldTypeMeta) list"

definition fieldTypeMeta :: "string \<Rightarrow> bool \<Rightarrow> bool \<Rightarrow> FieldPatch \<Rightarrow> nat option \<Rightarrow> FieldTypeMeta" where
  "fieldTypeMeta a ho hm dp c =
     \<lparr> answerType = a, hasOptions = ho, hasMatrix = hm, defaultProps = dp, defaultOptionCount = c \<rparr>"

definition BUILT_IN_FIELD_TYPES :: FieldTypeRegistry where
  "BUILT_IN_FIELD_TYPES =
     [(''text'', fieldTypeMeta ''text'' False False (emptyPatch \<lparr> patch_inputType := Some ''string'' \<rparr>) None),
      (''longtext'', fieldTypeMeta ''text'' False False emptyPatch None),
      (''multitext'', fieldTypeMeta ''multitext'' True False emptyPatch (Some 3)),
      (''radio'', fieldTypeMeta ''selection'' True False emptyPatch (Some 3)),
      (''check'', fieldTypeMeta ''multiselection'' True False emptyPatch (Some 3)),
      (''boolean'', fieldTypeMeta ''selection'' True False emptyPatch None),
      (''dropdown'', fieldTypeMeta ''selection'' True False emptyPatch (Some 3)),
      (''multiselectdropdown'', fieldTypeMeta ''multiselection'' True False emptyPatch (Some 3)),
      (''rating'', fieldTypeMeta ''selection'' True False emptyPatch (Some 5)),
      (''ranking'', fieldTypeMeta ''multiselection'' True False emptyPatch (Some 3)),
      (''slider'', fieldTypeMeta ''selection'' True False emptyPatch (Some 3)),
      (''singlematrix'', fieldTypeMeta ''matrix'' False True emptyPatch (Some 3)),
      (''multimatrix'', fieldTypeMeta ''matrix'' False True emptyPatch (Some 3)),
      (''image'', fieldTypeMeta ''display'' False False emptyPatch None),
      (''html'', fieldTypeMeta ''display'' False False emptyPatch None),
      (''signature'', fieldTypeMeta ''media'' False False emptyPatch None),
      (''diagram'', fieldTypeMeta ''media'' False False emptyPatch None),
      (''expression'', fieldTypeMeta ''text'' False False
         (emptyPatch \<lparr> patch_displayFormat := Some ''number'', patch_decimalPlaces := Some 2 \<rparr>) None),
      (''section'', fieldTypeMeta ''container'' False False emptyPatch None)]"

definition getFieldTypeMeta :: "FieldTypeRegistry \<Rightarrow> string \<Rightarrow> FieldTypeMeta option" where
  "getFieldTypeMeta registry key = map_of registry key"

subsection \<open>State\<close>

record FormEngineState =
  normalized :: NormalizedDefinition
  responses :: FormResponse

definition EMPTY_NORMALIZED :: NormalizedDefinition where
  "EMPTY_NORMALIZED = \<lparr> byId = [], rootIds = [] \<rparr>"

definition createFormEngine :: "FieldDefinition list option \<Rightarrow> FormEngineState" where
  "createFormEngine initial =
     \<lparr> normalized = (case initial of Some fs \<Rightarrow> normalizeDefinition fs | None \<Rightarrow> EMPTY_NORMALIZED),
       responses = [] \<rparr>"

definition loadDefinition :: "FieldDefinition list \<Rightarrow> FormEngineState \<Rightarrow> FormEngineState" where
  "loadDefinition fs st = \<lparr> normalized = normalizeDefinition fs, responses = [] \<rparr>"

definition setResponse :: "string \<Rightarrow> FieldResponse \<Rightarrow> FormEngineState \<Rightarrow> FormEngineState" where
  "setResponse fieldId response st = st \<lparr> responses := AList.update fieldId response (responses st) \<rparr>"

definition clearResponse :: "string \<Rightarrow> FormEngineState \<Rightarrow> FormEngineState" where
  "clearResponse fieldId st = st \<lparr> responses := AList.delete fieldId (responses st) \<rparr>"

definition resetResponses :: "FormEngineState \<Rightarrow> FormEngineState" where
  "resetResponses st = st \<lparr> responses := [] \<rparr>"

subsection \<open>Helpers\<close>

text \<open>A string used as a condition: absent and empty are both falsy.\<close>

definition truthy :: "string option \<Rightarrow> bool" where
  "truthy s = (case s of None \<Rightarrow> False | Some x \<Rightarrow> x \<noteq> [])"

definition insertAt :: "'a list \<Rightarrow> 'a \<Rightarrow> int option \<Rightarrow> 'a list" where
  "insertAt arr item idx =
     (case idx of
        None \<Rightarrow> arr @ [item]
      | Some i \<Rightarrow>
          if i \<ge> int (length arr) then arr @ [item]
          else if i \<le> 0 then item # arr
          else take (nat i) arr @ [item] @ drop (nat i) arr)"

definition patchField ::
  "NormalizedDefinition \<Rightarrow> string \<Rightarrow> (FieldDef \<Rightarrow> FieldDef option) \<Rightarrow> NormalizedDefinition option" where
  "patchField nd fieldId updater =
     (case map_of (byId nd) fieldId of
        None \<Rightarrow> None
      | Some node \<Rightarrow>
          (case updater (defn node) of
             None \<Rightarrow> None
           | Some newDef \<Rightarrow>
               Some (nd \<lparr> byId := AList.update fieldId (node \<lparr> defn := newDef \<rparr>) (byId nd) \<rparr>)))"

fun reindexFrom :: "nat \<Rightarrow> string list \<Rightarrow> ById \<Rightarrow> ById" where
  "reindexFrom i [] b = b"
| "reindexFrom i (x # xs) b =
     reindexFrom (Suc i) xs
       (case map_of b x of
          None \<Rightarrow> b
        | Some node \<Rightarrow> if index node \<noteq> i then AList.update x (node \<lparr> index := i \<rparr>) b else b)"

definition reindexChildren :: "ById \<Rightarrow> string list \<Rightarrow> ById" where
  "reindexChildren b ids = reindexFrom 0 ids b"

text \<open>
  \<open>collectDescendants\<close> calls itself on every child, so on an index with a cycle it
  never returns and the host raises a stack overflow. As in \<open>build\<close>, the first
  argument bounds the nesting of the calls and \<open>None\<close> is the overflow.
\<close>

fun collectDescendantsFuel :: "nat \<Rightarrow> ById \<Rightarrow> string \<Rightarrow> string list option"
  and collectChildren :: "nat \<Rightarrow> ById \<Rightarrow> string list \<Rightarrow> string list option" where
  "collectDescendantsFuel 0 b fieldId = None"
| "collectDescendantsFuel (Suc f) b fieldId =
     (case map_of b fieldId of
        None \<Rightarrow> Some []
      | Some node \<Rightarrow> if childIds node = [] then Some [] else collectChildren f b (childIds node))"
| "collectChildren f b [] = Some []"
| "collectChildren f b (c # cs) =
     (case collectDescendantsFuel f b c of
        None \<Rightarrow> None
      | Some ds \<Rightarrow>
          (case collectChildren f b cs of
             None \<Rightarrow> None
           | Some rest \<Rightarrow> Some (c # ds @ rest)))"

definition collectDescendants :: "ById \<Rightarrow> string \<Rightarrow> string list option" where
  "collectDescendants b fieldId = collectDescendantsFuel (Suc (length b)) b fieldId"

text \<open>
  The two steps that the builder actions share. Removing from the old position: the
  field is filtered out of the list of its parent, or of the root list when it has no
  parent in the index, and that list is reindexed. Inserting at the new position: the
  field is put into the list of the parent, or into the root list, its node is written,
  and the list is reindexed. Both work on the index under construction and the root
  list; the second fails, as an access to a property of \<open>undefined\<close> does, when the
  parent is not in the index.
\<close>

definition detachFrom :: "string option \<Rightarrow> string \<Rightarrow> ById \<times> string list \<Rightarrow> ById \<times> string list" where
  "detachFrom parent fieldId br =
     (case br of (b, rids) \<Rightarrow>
        if truthy parent \<and> map_of b (the parent) \<noteq> None then
          (case map_of b (the parent) of
             None \<Rightarrow> (b, rids)
           | Some pnode \<Rightarrow>
               let cids = filter (\<lambda>c. c \<noteq> fieldId) (childIds pnode)
               in (reindexChildren (AList.update (the parent) (pnode \<lparr> childIds := cids \<rparr>) b) cids, rids))
        else
          let rids' = filter (\<lambda>r. r \<noteq> fieldId) rids
          in (reindexChildren b rids', rids'))"

definition attachTo ::
  "string option \<Rightarrow> string \<Rightarrow> FieldNode \<Rightarrow> int option \<Rightarrow> ById \<times> string list
     \<Rightarrow> (ById \<times> string list) option" where
  "attachTo parent fieldId node idx br =
     (case br of (b, rids) \<Rightarrow>
        if truthy parent then
          (case map_of b (the parent) of
             None \<Rightarrow> None
           | Some pnode \<Rightarrow>
               let cids = insertAt (childIds pnode) fieldId idx;
                   b2 = AList.update (the parent) (pnode \<lparr> childIds := cids \<rparr>) b;
                   b3 = AList.update fieldId node b2
               in Some (reindexChildren b3 cids, rids))
        else
          let rids' = insertAt rids fieldId idx;
              b2 = AList.update fieldId node b
          in Some (reindexChildren b2 rids', rids'))"

subsection \<open>Builder actions\<close>

text \<open>
  An action takes the state and returns the new state with its result. The actions
  that walk the index return \<open>None\<close> when the host raises an exception instead; the
  state of the store is then the one before the call.
\<close>

record AddFieldOptions =
  opt_parentId :: "string option"
  opt_index :: "int option"
  opt_patch :: "FieldPatch option"

text \<open>The starter IDs of a new field: each is generated against the ones before it.\<close>

fun starterIds :: "(string list \<Rightarrow> string option \<Rightarrow> string) \<Rightarrow> nat \<Rightarrow> string \<Rightarrow> string list \<Rightarrow> string list" where
  "starterIds gen 0 fieldId acc = acc"
| "starterIds gen (Suc n) fieldId acc = starterIds gen n fieldId (acc @ [gen acc (Some fieldId)])"

definition isBlank :: "'a list option \<Rightarrow> bool" where
  "isBlank xs = (case xs of None \<Rightarrow> True | Some l \<Rightarrow> l = [])"

definition withStarters :: "FieldTypeMeta \<Rightarrow> FieldDef \<Rightarrow> FieldDef" where
  "withStarters meta d =
     (let count = (case defaultOptionCount meta of
                     Some c \<Rightarrow> c
                   | None \<Rightarrow> if hasOptions meta \<or> hasMatrix meta then 3 else 0);
          d1 = (if hasOptions meta \<and> count > 0 \<and> isBlank (options d)
                then d \<lparr> options := Some (map (\<lambda>i. \<lparr> option_id = i, option_value = '''', option_text = None \<rparr>)
                                            (starterIds generateOptionId count (field_id d) [])) \<rparr>
                else d);
          d2 = (if hasMatrix meta \<and> count > 0 \<and> isBlank (rows d1)
                then d1 \<lparr> rows := Some (map (\<lambda>i. \<lparr> row_id = i, row_value = '''' \<rparr>)
                                          (starterIds generateRowId count (field_id d) [])) \<rparr>
                else d1);
          d3 = (if hasMatrix meta \<and> count > 0 \<and> isBlank (columns d2)
                then d2 \<lparr> columns := Some (map (\<lambda>i. \<lparr> column_id = i, column_value = '''' \<rparr>)
                                             (starterIds generateColumnId count (field_id d) [])) \<rparr>
                else d2)
      in d3)"

definition addField ::
  "FieldTypeRegistry \<Rightarrow> string \<Rightarrow> AddFieldOptions option \<Rightarrow> FormEngineState
     \<Rightarrow> (FormEngineState \<times> string option) option" where
  "addField registry ftype opts st =
     (case getFieldTypeMeta registry ftype of
        None \<Rightarrow> Some (st, None)
      | Some meta \<Rightarrow>
          let nd = normalized st;
              parent = (case opts of None \<Rightarrow> None | Some op \<Rightarrow> opt_parentId op);
              idx = (case opts of None \<Rightarrow> None | Some op \<Rightarrow> opt_index op);
              patch = (case opts of None \<Rightarrow> emptyPatch
                       | Some op \<Rightarrow> (case opt_patch op of None \<Rightarrow> emptyPatch | Some p \<Rightarrow> p))
          in if truthy parent \<and> map_of (byId nd) (the parent) = None then Some (st, None)
             else
               let existingIds = map fst (byId nd);
                   newId = generateFieldId ftype existingIds parent;
                   d0 = (applyPatch (applyPatch (bareField newId ftype) (defaultProps meta)) patch)
                          \<lparr> field_id := newId, fieldType := ftype \<rparr>;
                   d = withStarters meta d0
               in (case attachTo parent newId
                          \<lparr> defn = d, parentId = (if truthy parent then parent else None),
                            childIds = [], index = 0 \<rparr>
                          idx (byId nd, rootIds nd) of
                     None \<Rightarrow> None
                   | Some (b', rids') \<Rightarrow>
                       Some (st \<lparr> normalized := \<lparr> byId = b', rootIds = rids' \<rparr> \<rparr>, Some newId)))"

definition renameIn :: "string \<Rightarrow> string \<Rightarrow> string list \<Rightarrow> string list" where
  "renameIn old new ids = map (\<lambda>c. if c = old then new else c) ids"

fun reparent :: "string \<Rightarrow> string list \<Rightarrow> ById \<Rightarrow> ById" where
  "reparent new [] b = b"
| "reparent new (c # cs) b =
     reparent new cs
       (case map_of b c of
          None \<Rightarrow> b
        | Some child \<Rightarrow> AList.update c (child \<lparr> parentId := Some new \<rparr>) b)"

definition updateField :: "string \<Rightarrow> FieldPatch \<Rightarrow> FormEngineState \<Rightarrow> (FormEngineState \<times> bool) option" where
  "updateField fieldId patch st =
     (let nd = normalized st
      in case map_of (byId nd) fieldId of
           None \<Rightarrow> Some (st, False)
         | Some node \<Rightarrow>
             (case patch_id patch of
                None \<Rightarrow>
                  (case patchField nd fieldId (\<lambda>d. Some (applyPatch d patch)) of
                     None \<Rightarrow> Some (st, False)
                   | Some res \<Rightarrow> Some (st \<lparr> normalized := res \<rparr>, True))
              | Some newId \<Rightarrow>
                  if newId = fieldId then
                    (case patchField nd fieldId (\<lambda>d. Some (applyPatch d patch)) of
                       None \<Rightarrow> Some (st, False)
                     | Some res \<Rightarrow> Some (st \<lparr> normalized := res \<rparr>, True))
                  else if map_of (byId nd) newId \<noteq> None then Some (st, False)
                  else
                    let newDef = applyPatch (defn node) patch;
                        rest = AList.delete fieldId (byId nd);
                        b1 = AList.update newId (node \<lparr> defn := newDef \<rparr>) rest;
                        b2 = (if truthy (parentId node) then
                                (case map_of b1 (the (parentId node)) of
                                   None \<Rightarrow> b1
                                 | Some pnode \<Rightarrow>
                                     AList.update (the (parentId node))
                                       (pnode \<lparr> childIds := renameIn fieldId newId (childIds pnode) \<rparr>) b1)
                              else b1);
                        rids = (if truthy (parentId node) then rootIds nd
                                else renameIn fieldId newId (rootIds nd));
                        b3 = reparent newId (childIds node) b2
                    in Some (st \<lparr> normalized := \<lparr> byId = b3, rootIds = rids \<rparr> \<rparr>, True)))"

definition removeField :: "string \<Rightarrow> FormEngineState \<Rightarrow> (FormEngineState \<times> bool) option" where
  "removeField fieldId st =
     (let nd = normalized st
      in case map_of (byId nd) fieldId of
           None \<Rightarrow> Some (st, False)
         | Some node \<Rightarrow>
             (case collectDescendants (byId nd) fieldId of
                None \<Rightarrow> None
              | Some desc \<Rightarrow>
                  let toRemove = fieldId # desc;
                      b1 = filter (\<lambda>(k, n). k \<notin> set toRemove) (byId nd)
                  in (case detachFrom (parentId node) fieldId (b1, rootIds nd) of
                        (b', rids') \<Rightarrow>
                          Some (st \<lparr> normalized := \<lparr> byId = b', rootIds = rids' \<rparr> \<rparr>, True))))"

text \<open>
  The target parent of \<open>moveField\<close> is optional and nullable: \<open>None\<close> is the argument
  left out, \<open>Some None\<close> is \<open>null\<close>.
\<close>

definition targetParent :: "string option option \<Rightarrow> FieldNode \<Rightarrow> string option" where
  "targetParent toParentId node = (case toParentId of None \<Rightarrow> parentId node | Some t \<Rightarrow> t)"

definition moveField ::
  "string \<Rightarrow> int \<Rightarrow> string option option \<Rightarrow> FormEngineState \<Rightarrow> (FormEngineState \<times> bool) option" where
  "moveField fieldId toIndex toParentId st =
     (let nd = normalized st
      in case map_of (byId nd) fieldId of
           None \<Rightarrow> Some (st, False)
         | Some node \<Rightarrow>
             let fromParentId = parentId node;
                 targetParentId = targetParent toParentId node
             in if targetParentId = Some fieldId then Some (st, False)
                else if truthy targetParentId \<and> map_of (byId nd) (the targetParentId) = None
                then Some (st, False)
                else
                  (case (if truthy targetParentId then collectDescendants (byId nd) fieldId else Some []) of
                     None \<Rightarrow> None
                   | Some desc \<Rightarrow>
                       if truthy targetParentId \<and> the targetParentId \<in> set desc then Some (st, False)
                       else
                         (case attachTo targetParentId fieldId
                                 (node \<lparr> parentId := (if truthy targetParentId then targetParentId else None) \<rparr>)
                                 (Some toIndex)
                                 (detachFrom fromParentId fieldId (byId nd, rootIds nd)) of
                            None \<Rightarrow> None
                          | Some (b', rids') \<Rightarrow>
                              Some (st \<lparr> normalized := \<lparr> byId = b', rootIds = rids' \<rparr> \<rparr>, True))))"

subsection \<open>Options, rows and columns\<close>




subsection \<open>Selectors\<close>

definition isVisible :: "string \<Rightarrow> FormEngineState \<Rightarrow> bool" where
  "isVisible fieldId st =
     (case map_of (byId (normalized st)) fieldId of
        None \<Rightarrow> False
      | Some node \<Rightarrow> resolveEffect Visible (defn node) (normalized st) (responses st))"

definition isRequired :: "string \<Rightarrow> FormEngineState \<Rightarrow> bool" where
  "isRequired fieldId st =
     (case map_of (byId (normalized st)) fieldId of
        None \<Rightarrow> False
      | Some node \<Rightarrow> resolveEffect Required (defn node) (normalized st) (responses st))"

definition getFieldErrors :: "string \<Rightarrow> FormEngineState \<Rightarrow> ValidationError list" where
  "getFieldErrors fieldId st = validateField fieldId (normalized st) (responses st)"

definition getErrors :: "FormEngineState \<Rightarrow> ValidationError list" where
  "getErrors st = validateForm (normalized st) (responses st)"

subsection \<open>Sequences of structural edits\<close>

datatype EditOp =
  AddField string "AddFieldOptions option"
| UpdateField string FieldPatch
| RemoveField string
| MoveField string int "string option option"

fun applyEdit :: "FieldTypeRegistry \<Rightarrow> EditOp \<Rightarrow> FormEngineState \<Rightarrow> FormEngineState option" where
  "applyEdit registry (AddField ftype opts) st = map_option fst (addField registry ftype opts st)"
| "applyEdit registry (UpdateField fieldId patch) st = map_option fst (updateField fieldId patch st)"
| "applyEdit registry (RemoveField fieldId) st = map_option fst (removeField fieldId st)"
| "applyEdit registry (MoveField fieldId toIndex toParentId) st =
     map_option fst (moveField fieldId toIndex toParentId st)"

fun applyEdits :: "FieldTypeRegistry \<Rightarrow> EditOp list \<Rightarrow> FormEngineState \<Rightarrow> FormEngineState option" where
  "applyEdits registry [] st = Some st"
| "applyEdits registry (e # es) st =
     (case applyEdit registry e st of None \<Rightarrow> None | Some st' \<Rightarrow> applyEdits registry es st')"

section \<open>Well-formed indices\<close>

text \<open>Every member of a sibling list is in the index, with its position as its \<open>index\<close>.\<close>

definition siblingsIndexed :: "ById \<Rightarrow> string list \<Rightarrow> bool" where
  "siblingsIndexed b ids =
     list_all (\<lambda>(i, x). case map_of b x of None \<Rightarrow> False | Some n \<Rightarrow> index n = i) (enumerate 0 ids)"

text \<open>
  The invariant of the index that the structural edits are to keep: the keys are
  distinct, every ID in the root list or in a list of children is a key, and in every
  such list the node at position \<open>i\<close> has index \<open>i\<close>.
\<close>

definition indexInvariant :: "NormalizedDefinition \<Rightarrow> bool" where
  "indexInvariant nd =
     (distinct (map fst (byId nd))
      \<and> siblingsIndexed (byId nd) (rootIds nd)
      \<and> list_all (\<lambda>(k, n). siblingsIndexed (byId nd) (childIds n)) (byId nd))"

text \<open>
  The number of parents above a field, found by following \<open>parentId\<close> at most as many
  times as the first argument says.
\<close>

fun depthFuel :: "nat \<Rightarrow> ById \<Rightarrow> string \<Rightarrow> nat option" where
  "depthFuel 0 b k = None"
| "depthFuel (Suc f) b k =
     (case map_of b k of
        None \<Rightarrow> None
      | Some n \<Rightarrow>
          (case parentId n of
             None \<Rightarrow> Some 0
           | Some p \<Rightarrow> map_option Suc (depthFuel f b p)))"

text \<open>
  A well-formed index, as normalization builds it from a well-formed tree: distinct
  non-empty keys; a root list and lists of children without repetition, whose members
  are in the index, point back to their parent and carry their position; every field
  listed where its \<open>parentId\<close> says; and every chain of parents ending at the top.
\<close>

definition childrenOk :: "ById \<Rightarrow> string \<Rightarrow> FieldNode \<Rightarrow> bool" where
  "childrenOk b k n =
     (distinct (childIds n)
      \<and> list_all (\<lambda>c. case map_of b c of None \<Rightarrow> False | Some m \<Rightarrow> parentId m = Some k) (childIds n)
      \<and> siblingsIndexed b (childIds n))"

definition listedOk :: "NormalizedDefinition \<Rightarrow> string \<Rightarrow> FieldNode \<Rightarrow> bool" where
  "listedOk nd k n =
     (case parentId n of
        None \<Rightarrow> k \<in> set (rootIds nd)
      | Some p \<Rightarrow> (case map_of (byId nd) p of None \<Rightarrow> False | Some pn \<Rightarrow> k \<in> set (childIds pn)))"

definition wfIndex :: "NormalizedDefinition \<Rightarrow> bool" where
  "wfIndex nd =
     (distinct (map fst (byId nd))
      \<and> [] \<notin> set (map fst (byId nd))
      \<and> distinct (rootIds nd)
      \<and> list_all (\<lambda>r. case map_of (byId nd) r of None \<Rightarrow> False | Some n \<Rightarrow> parentId n = None) (rootIds nd)
      \<and> siblingsIndexed (byId nd) (rootIds nd)
      \<and> list_all (\<lambda>(k, n). childrenOk (byId nd) k n) (byId nd)
      \<and> list_all (\<lambda>(k, n). listedOk nd k n) (byId nd)
      \<and> list_all (\<lambda>(k, n). depthFuel (length (byId nd)) (byId nd) k \<noteq> None) (byId nd))"

text \<open>The relation of a field to each of its children, and so to its descendants.\<close>

definition childRel :: "ById \<Rightarrow> (string \<times> string) set" where
  "childRel b = {(p, c). \<exists>n. map_of b p = Some n \<and> c \<in> set (childIds n)}"

definition isDescendant :: "ById \<Rightarrow> string \<Rightarrow> string \<Rightarrow> bool" where
  "isDescendant b anc x = ((anc, x) \<in> (childRel b)\<^sup>+)"

section \<open>Rules of one effect\<close>


section \<open>Rooted indices\<close>

text \<open>What the walk needs of the index: children are fields that point back, and chains of parents end.\<close>

definition rooted :: "ById \<Rightarrow> bool" where
  "rooted b =
     ((\<forall>k n c. map_of b k = Some n \<longrightarrow> c \<in> set (childIds n)
          \<longrightarrow> (\<exists>m. map_of b c = Some m \<and> parentId m = Some k))
      \<and> (\<forall>k n. map_of b k = Some n \<longrightarrow> depthFuel (length b) b k \<noteq> None))"

section \<open>Whole-word matching\<close>

text \<open>The words of a text: its maximal runs of characters that are not white space.\<close>

fun wordsOf :: "string \<Rightarrow> string list" where
  "wordsOf [] = []"
| "wordsOf (c # cs) =
     (if isSpace c then wordsOf cs
      else (case cs of
              [] \<Rightarrow> [[c]]
            | d # _ \<Rightarrow>
                if isSpace d then [c] # wordsOf cs
                else (case wordsOf cs of [] \<Rightarrow> [[c]] | w # ws \<Rightarrow> (c # w) # ws)))"



definition startsWithSpace :: "string \<Rightarrow> bool" where
  "startsWithSpace s = (case s of [] \<Rightarrow> False | c # _ \<Rightarrow> isSpace c)"

section \<open>Sibling lists\<close>

text \<open>The position of the first occurrence of an element in a list.\<close>

fun positionOf :: "'a \<Rightarrow> 'a list \<Rightarrow> nat" where
  "positionOf x [] = 0"
| "positionOf x (y # ys) = (if x = y then 0 else Suc (positionOf x ys))"

text \<open>An index, read as a map, in which the members of a list carry their position.\<close>

definition reindexed :: "string list \<Rightarrow> (string \<rightharpoonup> FieldNode) \<Rightarrow> (string \<rightharpoonup> FieldNode)" where
  "reindexed ids m =
     (\<lambda>k. map_option (\<lambda>n. if k \<in> set ids then n \<lparr> index := positionOf k ids \<rparr> else n) (m k))"

text \<open>The list a field is a member of: the children of its parent, or the root list.\<close>

definition siblingsOf :: "NormalizedDefinition \<Rightarrow> string option \<Rightarrow> string list" where
  "siblingsOf nd parent =
     (case parent of
        None \<Rightarrow> rootIds nd
      | Some p \<Rightarrow> (case map_of (byId nd) p of None \<Rightarrow> [] | Some n \<Rightarrow> childIds n))"

text \<open>
  What a successful move of a field to a target parent (\<open>None\<close> for the root) and a
  requested position leaves behind: the field, with its definition and children, now
  has the target as parent; the list of the target is its former list without the
  field, with the field inserted at the position (at the front for a position of zero
  or less, at the end for one beyond the list); the list of the former parent, when it is
  another, has lost the field; in both lists every member carries its position; and the
  responses are the same.
\<close>

definition moved ::
  "FormEngineState \<Rightarrow> FormEngineState \<Rightarrow> string \<Rightarrow> FieldNode \<Rightarrow> string option \<Rightarrow> int \<Rightarrow> bool" where
  "moved st st' fieldId node target i =
     (responses st' = responses st
      \<and> (\<exists>n'. map_of (byId (normalized st')) fieldId = Some n'
              \<and> parentId n' = target \<and> defn n' = defn node \<and> childIds n' = childIds node)
      \<and> siblingsOf (normalized st') target
          = insertAt (filter (\<lambda>x. x \<noteq> fieldId) (siblingsOf (normalized st) target)) fieldId (Some i)
      \<and> (parentId node \<noteq> target \<longrightarrow>
            siblingsOf (normalized st') (parentId node)
              = filter (\<lambda>x. x \<noteq> fieldId) (siblingsOf (normalized st) (parentId node)))
      \<and> siblingsIndexed (byId (normalized st')) (siblingsOf (normalized st') target)
      \<and> siblingsIndexed (byId (normalized st')) (siblingsOf (normalized st') (parentId node)))"

section \<open>Example states\<close>


text \<open>
  The form of the scenario: a text field \<open>trigger\<close> and a required text field \<open>q1\<close>
  that is visible when \<open>trigger\<close> equals \<open>show\<close>.
\<close>

definition showRule :: ConditionalRule where
  "showRule =
     \<lparr> effect = Visible, logic = AND,
       conditions = [\<lparr> targetId = ''trigger'', operator = Equals, expected = ''show'',
                       propertyAccessor = None \<rparr>] \<rparr>"

definition q1Def :: FieldDef where
  "q1Def = (bareField ''q1'' ''text'') \<lparr> required := Some True, rules := Some [showRule] \<rparr>"


definition textAnswer :: "string \<Rightarrow> FieldResponse" where
  "textAnswer s = emptyResponse \<lparr> answer := Some (JVal (PStr s)) \<rparr>"


text \<open>
  A form with a section \<open>s1\<close> holding \<open>c1\<close> and \<open>c2\<close>, followed by a field \<open>q\<close>; the
  state holds an answer for \<open>c1\<close> and one for \<open>s1\<close>.
\<close>

definition sectionTree :: "FieldDefinition list" where
  "sectionTree =
     [FieldDefinition (bareField ''s1'' ''section'')
        (Some [FieldDefinition (bareField ''c1'' ''text'') None,
               FieldDefinition (bareField ''c2'' ''text'') None]),
      FieldDefinition (bareField ''q'' ''text'') None]"

definition sectionState :: FormEngineState where
  "sectionState =
     setResponse ''s1'' (textAnswer ''kept'')
       (setResponse ''c1'' (textAnswer ''yes'') (loadDefinition sectionTree (createFormEngine None)))"

text \<open>A section whose list of nested fields is present and empty.\<close>

definition emptySection :: "FieldDefinition list" where
  "emptySection = [FieldDefinition (bareField ''s1'' ''section'') (Some [])]"





section \<open>Basic facts\<close>

lemma bareField_sel [simp]:
  "field_id (bareField i t) = i"
  "fieldType (bareField i t) = t"
  "rules (bareField i t) = None"
  "required (bareField i t) = None"
  "options (bareField i t) = None"
  "rows (bareField i t) = None"
  "columns (bareField i t) = None"
  "inputType (bareField i t) = None"
  "displayFormat (bareField i t) = None"
  by (simp_all add: bareField_def defOfPatch_def emptyPatch_def)

section \<open>Properties of ID generation\<close>















section \<open>Round trip of normalization\<close>

text \<open>The IDs at the top of a list of trees.\<close>

lemma walk_fst: "fst (walk ts p i b) = map (\<lambda>t. field_id (attrs t)) ts"
  by (induction ts p i b rule: walk.induct) (auto simp: Let_def split: prod.splits)

text \<open>The walk writes only keys that are IDs of the trees.\<close>

lemma walk_frame:
  "k \<notin> set (allIdsL ts) \<Longrightarrow> map_of (snd (walk ts p i b)) k = map_of b k"
  by (induction ts p i b rule: walk.induct)
     (auto simp: Let_def update_conv' split: prod.splits)

lemma walk_keys_mono:
  "map_of b k \<noteq> None \<Longrightarrow> map_of (snd (walk ts p i b)) k \<noteq> None"
  by (induction ts p i b rule: walk.induct)
     (auto simp: Let_def update_conv' split: prod.splits)

lemma build_Cons_Some:
  assumes "map_of b k = Some node" "0 < f"
    and "childIds node \<noteq> [] \<Longrightarrow> build (f - 1) b (childIds node) = Some ch"
    and "build f b ids = Some rest"
  shows "build f b (k # ids) =
           Some (FieldDefinition (defn node) (if childIds node \<noteq> [] then Some ch else None) # rest)"
  using assms by (cases f) auto

lemma build_walk:
  assumes "distinct (allIdsL ts)" "onlySectionsL ts"
    and "\<forall>k \<in> set (allIdsL ts). map_of b' k = map_of (snd (walk ts p i b)) k"
    and "depthL ts < f"
  shows "build f b' (map (\<lambda>t. field_id (attrs t)) ts) = Some (dropEmptyFieldsL ts)"
  using assms
proof (induction ts p i b arbitrary: b' f rule: walk.induct)
  case (1 parent i b)
  then show ?case by (cases f) auto
next
  case (2 a ds parent i b)
  let ?node = "\<lparr> defn = a, parentId = parent, childIds = [], index = i \<rparr>"
  let ?b2 = "AList.update (field_id a) ?node b"
  from "2.prems"(1) have nin: "field_id a \<notin> set (allIdsL ds)" and dd: "distinct (allIdsL ds)"
    by auto
  have w: "snd (walk (FieldDefinition a None # ds) parent i b) = snd (walk ds parent (Suc i) ?b2)"
    by (simp add: Let_def split: prod.splits)
  have "map_of b' (field_id a) = map_of (snd (walk ds parent (Suc i) ?b2)) (field_id a)"
    using "2.prems"(3) w by simp
  also have "\<dots> = map_of ?b2 (field_id a)"
    using nin by (rule walk_frame)
  finally have here: "map_of b' (field_id a) = Some ?node"
    by (simp add: update_conv')
  have rest: "build f b' (map (\<lambda>t. field_id (attrs t)) ds) = Some (dropEmptyFieldsL ds)"
  proof (rule "2.IH" [OF refl])
    show "distinct (allIdsL ds)" by (rule dd)
    show "onlySectionsL ds" using "2.prems"(2) by simp
    show "\<forall>k\<in>set (allIdsL ds). map_of b' k = map_of (snd (walk ds parent (Suc i) ?b2)) k"
      using "2.prems"(3) w by simp
    show "depthL ds < f" using "2.prems"(4) by simp
  qed
  from "2.prems"(4) have f: "0 < f" by simp
  show ?case
    using build_Cons_Some [OF here f _ rest] by simp
next
  case (3 a children ds parent i b)
  from "3.prems"(2) have sec: "fieldType a = ''section''" and oc: "onlySectionsL children"
    and od: "onlySectionsL ds"
    by auto
  let ?cids = "map (\<lambda>t. field_id (attrs t)) children"
  obtain c0 b1 where wc0: "walk children (Some (field_id a)) 0 b = (c0, b1)"
    by (cases "walk children (Some (field_id a)) 0 b")
  with walk_fst [of children "Some (field_id a)" 0 b] have "c0 = ?cids" by simp
  with wc0 have wc: "walk children (Some (field_id a)) 0 b = (?cids, b1)" by simp
  let ?node = "\<lparr> defn = a, parentId = parent, childIds = ?cids, index = i \<rparr>"
  let ?b2 = "AList.update (field_id a) ?node b1"
  let ?b3 = "snd (walk ds parent (Suc i) ?b2)"
  have w: "snd (walk (FieldDefinition a (Some children) # ds) parent i b) = ?b3"
    using sec wc by (simp add: Let_def split: prod.splits)
  from "3.prems"(1) have nin: "field_id a \<notin> set (allIdsL ds)" and dd: "distinct (allIdsL ds)"
    and dc: "distinct (allIdsL children)" and ninc: "field_id a \<notin> set (allIdsL children)"
    and disj: "set (allIdsL children) \<inter> set (allIdsL ds) = {}"
    by auto
  have "map_of b' (field_id a) = map_of ?b3 (field_id a)"
    using "3.prems"(3) w by simp
  also have "\<dots> = map_of ?b2 (field_id a)"
    using nin by (rule walk_frame)
  finally have here: "map_of b' (field_id a) = Some ?node"
    by (simp add: update_conv')
  have kids: "build (f - 1) b' ?cids = Some (dropEmptyFieldsL children)"
  proof (rule "3.IH"(1) [OF sec])
    show "distinct (allIdsL children)" by (rule dc)
    show "onlySectionsL children" by (rule oc)
    show "\<forall>k\<in>set (allIdsL children).
            map_of b' k = map_of (snd (walk children (Some (field_id a)) 0 b)) k"
    proof
      fix k assume k: "k \<in> set (allIdsL children)"
      with disj have "k \<notin> set (allIdsL ds)" by auto
      then have "map_of ?b3 k = map_of ?b2 k" by (rule walk_frame)
      also have "\<dots> = map_of b1 k"
        using k ninc by (auto simp: update_conv')
      finally show "map_of b' k = map_of (snd (walk children (Some (field_id a)) 0 b)) k"
        using "3.prems"(3) w k wc by simp
    qed
    show "depthL children < f - 1" using "3.prems"(4) by (simp add: less_diff_conv)
  qed
  have rest: "build f b' (map (\<lambda>t. field_id (attrs t)) ds) = Some (dropEmptyFieldsL ds)"
  proof (rule "3.IH"(2) [OF refl _ refl])
    show "(?cids, b1) = (if fieldType a = ''section'' then walk children (Some (field_id a)) 0 b
                         else ([], b))"
      using sec wc by simp
    show "distinct (allIdsL ds)" by (rule dd)
    show "onlySectionsL ds" by (rule od)
    show "\<forall>k\<in>set (allIdsL ds). map_of b' k = map_of ?b3 k"
      using "3.prems"(3) w by simp
    show "depthL ds < f" using "3.prems"(4) by simp
  qed
  from "3.prems"(4) have f: "0 < f" by simp
  have "dropEmptyFields (FieldDefinition a (Some children)) =
          FieldDefinition a (if ?cids \<noteq> [] then Some (dropEmptyFieldsL children) else None)"
    by simp
  then show ?case
    using build_Cons_Some [OF here f _ rest, of "dropEmptyFieldsL children"] kids by simp
qed

lemma walk_keys:
  "onlySectionsL ts \<Longrightarrow> k \<in> set (allIdsL ts) \<Longrightarrow> map_of (snd (walk ts p i b)) k \<noteq> None"
proof (induction ts p i b rule: walk.induct)
  case (1 parent i b)
  then show ?case by simp
next
  case (2 a ds parent i b)
  let ?b2 = "AList.update (field_id a)
               \<lparr> defn = a, parentId = parent, childIds = [], index = i \<rparr> b"
  have w: "snd (walk (FieldDefinition a None # ds) parent i b) = snd (walk ds parent (Suc i) ?b2)"
    by (simp add: Let_def split: prod.splits)
  from "2.prems"(2) consider "k = field_id a" | "k \<in> set (allIdsL ds)"
    by auto
  then show ?case
  proof cases
    case 1
    then have "map_of ?b2 k \<noteq> None" by (simp add: update_conv')
    then show ?thesis unfolding w by (rule walk_keys_mono)
  next
    case 2
    from "2.prems"(1) have "onlySectionsL ds" by simp
    from "2.IH" [OF refl this 2] show ?thesis unfolding w .
  qed
next
  case (3 a children ds parent i b)
  from "3.prems"(1) have sec: "fieldType a = ''section''" and oc: "onlySectionsL children"
    and od: "onlySectionsL ds"
    by auto
  obtain c0 b1 where wc: "walk children (Some (field_id a)) 0 b = (c0, b1)"
    by (cases "walk children (Some (field_id a)) 0 b")
  let ?b2 = "AList.update (field_id a)
               \<lparr> defn = a, parentId = parent, childIds = c0, index = i \<rparr> b1"
  have w: "snd (walk (FieldDefinition a (Some children) # ds) parent i b)
             = snd (walk ds parent (Suc i) ?b2)"
    using sec wc by (simp add: Let_def split: prod.splits)
  from "3.prems"(2) consider "k = field_id a" | "k \<in> set (allIdsL children)" | "k \<in> set (allIdsL ds)"
    by auto
  then show ?case
  proof cases
    case 1
    then have "map_of ?b2 k \<noteq> None" by (simp add: update_conv')
    then show ?thesis unfolding w by (rule walk_keys_mono)
  next
    case 2
    from "3.IH"(1) [OF sec oc 2] wc have "map_of b1 k \<noteq> None" by simp
    then have "map_of ?b2 k \<noteq> None" by (simp add: update_conv')
    then show ?thesis unfolding w by (rule walk_keys_mono)
  next
    case 3
    have "(c0, b1) = (if fieldType a = ''section'' then walk children (Some (field_id a)) 0 b
                      else ([], b))"
      using sec wc by simp
    from "3.IH"(2) [OF refl this refl od 3] show ?thesis unfolding w .
  qed
qed

lemma depth_le_ids:
  "depth t \<le> length (allIds t)" "depthL ts \<le> length (allIdsL ts)"
  by (induction t and ts rule: allIds_allIdsL.induct) auto

lemma distinct_keys_length:
  assumes "distinct xs" "\<forall>k \<in> set xs. map_of b k \<noteq> None"
  shows "length xs \<le> length b"
proof -
  from assms(2) have "set xs \<subseteq> fst ` set b"
    by (auto simp: map_of_eq_None_iff)
  then have "card (set xs) \<le> card (fst ` set b)"
    by (intro card_mono) auto
  also have "\<dots> \<le> card (set b)" by (intro card_image_le) auto
  also have "\<dots> \<le> length b" by (rule card_length)
  finally show ?thesis using assms(1) by (simp add: distinct_card)
qed

lemma dropEmptyFields_id:
  "noEmptyFields t \<Longrightarrow> dropEmptyFields t = t"
  "noEmptyFieldsL ts \<Longrightarrow> dropEmptyFieldsL ts = ts"
  by (induction t and ts rule: dropEmptyFields_dropEmptyFieldsL.induct) auto

lemma hydrate_normalize:
  assumes "wellFormed ts"
  shows "hydrateDefinition (normalizeDefinition ts) = Some (dropEmptyFieldsL ts)"
proof -
  obtain ids b where w: "walk ts None 0 [] = (ids, b)"
    by (cases "walk ts None 0 []")
  with walk_fst [of ts None 0 "[]"] have ids: "ids = map (\<lambda>t. field_id (attrs t)) ts" by simp
  from assms have d: "distinct (allIdsL ts)" and o: "onlySectionsL ts"
    by (simp_all add: wellFormed_def)
  have "\<forall>k \<in> set (allIdsL ts). map_of b k \<noteq> None"
    using walk_keys [OF o, of _ None 0 "[]"] w by simp
  with d have "length (allIdsL ts) \<le> length b" by (rule distinct_keys_length)
  with depth_le_ids(2) [of ts] have f: "depthL ts < Suc (length b)" by simp
  have "build (Suc (length b)) b (map (\<lambda>t. field_id (attrs t)) ts) = Some (dropEmptyFieldsL ts)"
    using d o _ f by (rule build_walk [where p = None and i = 0 and b = "[]"]) (simp add: w)
  with w ids show ?thesis
    by (simp add: hydrateDefinition_def normalizeDefinition_def)
qed

text \<open>
  Claim C1, as stated, fails: a section whose \<open>fields\<close> list is present and empty is a
  well-formed tree, and it comes back without the \<open>fields\<close> attribute.
\<close>

theorem roundtrip_empty_section_counterexample:
  "wellFormed emptySection
   \<and> hydrateDefinition (normalizeDefinition emptySection)
       = Some [FieldDefinition (bareField ''s1'' ''section'') None]
   \<and> hydrateDefinition (normalizeDefinition emptySection) \<noteq> Some emptySection"
  by (simp add: emptySection_def wellFormed_def hydrateDefinition_def normalizeDefinition_def)

text \<open>
  Claim C1, amended. For every well-formed tree (no ID twice in the whole tree, nested
  fields on sections only), hydrating the normalized tree returns the tree with every
  empty \<open>fields\<close> list left out: the IDs, the attributes and the order of the children
  of every node, nested sections included, are the ones of the tree. It returns the tree
  itself when no \<open>fields\<close> list of the tree is empty.
\<close>

theorem hydrate_normalize_roundtrip:
  "wellFormed ts \<longrightarrow>
     hydrateDefinition (normalizeDefinition ts) = Some (dropEmptyFieldsL ts)
     \<and> (noEmptyFieldsL ts \<longrightarrow> hydrateDefinition (normalizeDefinition ts) = Some ts)"
  using hydrate_normalize [of ts] dropEmptyFields_id(2) [of ts] by simp

theorem hydrate_normalize_roundtrip_witness:
  "wellFormed sectionTree \<and> noEmptyFieldsL sectionTree
   \<and> hydrateDefinition (normalizeDefinition sectionTree) = Some sectionTree
   \<and> wellFormed emptySection
   \<and> hydrateDefinition (normalizeDefinition emptySection) = Some (dropEmptyFieldsL emptySection)"
proof -
  have 1: "wellFormed sectionTree" "noEmptyFieldsL sectionTree"
    by (simp_all add: sectionTree_def wellFormed_def)
  have 2: "wellFormed emptySection"
    by (simp add: emptySection_def wellFormed_def)
  from hydrate_normalize_roundtrip [of sectionTree] hydrate_normalize_roundtrip [of emptySection] 1 2
  show ?thesis by blast
qed


section \<open>Rule resolution\<close>



lemma q1Def_sel [simp]:
  "field_id q1Def = ''q1''" "fieldType q1Def = ''text''"
  "rules q1Def = Some [showRule]" "required q1Def = Some True"
  by (simp_all add: q1Def_def)

lemma trim_plain [simp]: "trim ''show'' = ''show''" "trim ''hide'' = ''hide''"
  by (simp_all add: trim_def isSpace_def)





section \<open>The numeric path\<close>










section \<open>The contains operator\<close>

lemma wordsOf_space [simp]: "isSpace c \<Longrightarrow> wordsOf (c # cs) = wordsOf cs"
  by simp

lemma wordsOf_dropWhile [simp]: "wordsOf (dropWhile isSpace s) = wordsOf s"
  by (induction s) auto



lemma wordsOf_startsWithSpace:
  "startsWithSpace s \<Longrightarrow> wordsOf s = wordsOf (tl s)"
  by (cases s) (auto simp: startsWithSpace_def)





lemma wordsOf_nonempty_text: "wordsOf s \<noteq> [] \<Longrightarrow> s \<noteq> []"
  by auto

















section \<open>Validation\<close>

lemma isResponseEmpty_answer:
  "answer r = Some v \<Longrightarrow> v \<noteq> JVal PNull \<Longrightarrow> (\<forall>s. v = JVal (PStr s) \<longrightarrow> trim s \<noteq> [])
   \<Longrightarrow> \<not> isResponseEmpty (Some r)"
  by (auto simp: isResponseEmpty_def split: jsval.splits plain.splits)

lemma trim_digits [simp]: "trim ''0'' = ''0''" "trim ''false'' = ''false''"
  by (simp_all add: trim_def isSpace_def)




section \<open>Termination of the descendant walk\<close>

lemma depthFuel_mono:
  "depthFuel f b k = Some d \<Longrightarrow> f \<le> f' \<Longrightarrow> depthFuel f' b k = Some d"
proof (induction f b k arbitrary: d f' rule: depthFuel.induct)
  case (1 b k)
  then show ?case by simp
next
  case (2 f b k)
  from "2.prems" obtain g where f': "f' = Suc g" and fg: "f \<le> g"
    by (cases f') auto
  from "2.prems"(1) obtain n where n: "map_of b k = Some n"
    by (auto split: option.splits)
  show ?case
  proof (cases "parentId n")
    case None
    with n "2.prems" f' show ?thesis by simp
  next
    case (Some p)
    with n "2.prems"(1) obtain d0 where d0: "depthFuel f b p = Some d0" "d = Suc d0"
      by auto
    from "2.IH" [OF n Some d0(1) fg] have "depthFuel g b p = Some d0" .
    with n Some d0 f' show ?thesis by simp
  qed
qed

lemma depthFuel_less: "depthFuel f b k = Some d \<Longrightarrow> d < f"
proof (induction f b k arbitrary: d rule: depthFuel.induct)
  case (1 b k)
  then show ?case by simp
next
  case (2 f b k)
  then show ?case
    by (auto split: option.splits)
qed

lemma depthFuel_child:
  assumes "map_of b c = Some m" "parentId m = Some k" "depthFuel F b c = Some dc"
  shows "\<exists>dk. depthFuel F b k = Some dk \<and> dc = Suc dk"
proof -
  from assms(3) obtain f where F: "F = Suc f" by (cases F) auto
  with assms obtain dk where "depthFuel f b k = Some dk" "dc = Suc dk"
    by auto
  with depthFuel_mono [of f b k dk F] F show ?thesis by simp
qed

lemma collect_terminates_aux:
  assumes r: "rooted b"
  shows "map_of b k = Some n \<Longrightarrow> depthFuel (length b) b k = Some d \<Longrightarrow> length b < f + d
           \<Longrightarrow> \<exists>r. collectDescendantsFuel f b k = Some r"
proof (induction f arbitrary: k n d)
  case 0
  then show ?case using depthFuel_less [of "length b" b k d] by simp
next
  case (Suc f)
  have kids: "\<exists>r. collectChildren f b cs = Some r" if "set cs \<subseteq> set (childIds n)" for cs
    using that
  proof (induction cs)
    case Nil
    show ?case by simp
  next
    case (Cons c cs)
    then have "c \<in> set (childIds n)" by simp
    with r Suc.prems(1) obtain m where m: "map_of b c = Some m" "parentId m = Some k"
      unfolding rooted_def by blast
    from r m(1) obtain dc where dc: "depthFuel (length b) b c = Some dc"
      unfolding rooted_def by blast
    from depthFuel_child [OF m dc] Suc.prems(2) have "dc = Suc d" by simp
    with Suc.prems(3) have "length b < f + dc" by simp
    from Suc.IH [OF m(1) dc this] obtain r1 where "collectDescendantsFuel f b c = Some r1" ..
    moreover from Cons obtain r2 where "collectChildren f b cs = Some r2" by auto
    ultimately show ?case by simp
  qed
  from kids [of "childIds n"] Suc.prems(1) show ?case by simp
qed

lemma collectDescendants_terminates:
  assumes "rooted b" "map_of b k = Some n"
  shows "\<exists>r. collectDescendants b k = Some r"
proof -
  from assms obtain d where "depthFuel (length b) b k = Some d"
    unfolding rooted_def by blast
  from collect_terminates_aux [OF assms this, of "Suc (length b)"]
  show ?thesis by (simp add: collectDescendants_def)
qed

lemma wfIndex_child:
  assumes "wfIndex nd" "map_of (byId nd) k = Some n" "c \<in> set (childIds n)"
  shows "\<exists>m. map_of (byId nd) c = Some m \<and> parentId m = Some k"
proof -
  from assms(2) have "(k, n) \<in> set (byId nd)" by (rule map_of_SomeD)
  with assms(1) have "childrenOk (byId nd) k n"
    unfolding wfIndex_def list_all_iff by blast
  with assms(3) show ?thesis
    unfolding childrenOk_def list_all_iff by (auto split: option.splits)
qed

lemma wfIndex_depth:
  assumes "wfIndex nd" "map_of (byId nd) k = Some n"
  shows "depthFuel (length (byId nd)) (byId nd) k \<noteq> None"
proof -
  from assms(2) have "(k, n) \<in> set (byId nd)" by (rule map_of_SomeD)
  with assms(1) show ?thesis
    unfolding wfIndex_def list_all_iff by blast
qed

lemma wfIndex_rooted: "wfIndex nd \<Longrightarrow> rooted (byId nd)"
  unfolding rooted_def using wfIndex_child wfIndex_depth by blast


section \<open>The responses are not touched by structural edits\<close>

lemma map_of_reindexFrom_None:
  "map_of (reindexFrom i ids b) k = None \<longleftrightarrow> map_of b k = None"
  by (induction ids arbitrary: i b) (auto simp: update_conv' split: option.splits)

lemma map_of_reindexChildren_None:
  "map_of (reindexChildren b ids) k = None \<longleftrightarrow> map_of b k = None"
  by (simp add: reindexChildren_def map_of_reindexFrom_None)

lemma addField_total:
  "\<exists>st' r. addField registry ftype opts st = Some (st', r) \<and> responses st' = responses st"
  by (auto simp: addField_def attachTo_def Let_def split: option.splits)

lemma updateField_total:
  "\<exists>st' r. updateField fid patch st = Some (st', r) \<and> responses st' = responses st"
  by (auto simp: updateField_def Let_def split: option.splits)

lemma removeField_responses:
  "removeField fid st = Some (st', r) \<Longrightarrow> responses st' = responses st"
  by (auto simp: removeField_def Let_def split: option.splits if_splits prod.splits)

lemma moveField_responses:
  "moveField fid i tp st = Some (st', r) \<Longrightarrow> responses st' = responses st"
  by (auto simp: moveField_def Let_def split: option.splits if_splits prod.splits)

lemma removeField_total:
  assumes "wfIndex (normalized st)"
  shows "\<exists>st' r. removeField fid st = Some (st', r)"
proof (cases "map_of (byId (normalized st)) fid")
  case None
  then show ?thesis by (auto simp: removeField_def)
next
  case (Some node)
  from collectDescendants_terminates [OF wfIndex_rooted [OF assms] Some]
  obtain desc where "collectDescendants (byId (normalized st)) fid = Some desc" ..
  with Some show ?thesis
    by (auto simp: removeField_def Let_def split: option.splits prod.splits)
qed

lemma attach_detach_Some:
  assumes "truthy t \<longrightarrow> map_of b (the t) \<noteq> None"
  shows "\<exists>b' rs'. attachTo t fid n idx (detachFrom p fid (b, rs)) = Some (b', rs')"
  using assms
  by (auto simp: attachTo_def detachFrom_def Let_def map_of_reindexChildren_None update_conv'
      split: option.splits)

lemma moveField_unfold:
  assumes "map_of (byId (normalized st)) fid = Some node"
  shows "moveField fid i tp st =
     (let b = byId (normalized st); t = targetParent tp node
      in if t = Some fid then Some (st, False)
         else if truthy t \<and> map_of b (the t) = None then Some (st, False)
         else
           (case (if truthy t then collectDescendants b fid else Some []) of
              None \<Rightarrow> None
            | Some desc \<Rightarrow>
                if truthy t \<and> the t \<in> set desc then Some (st, False)
                else
                  (case attachTo t fid (node \<lparr> parentId := (if truthy t then t else None) \<rparr>)
                          (Some i) (detachFrom (parentId node) fid (b, rootIds (normalized st))) of
                     None \<Rightarrow> None
                   | Some (b', rids') \<Rightarrow>
                       Some (st \<lparr> normalized := \<lparr> byId = b', rootIds = rids' \<rparr> \<rparr>, True))))"
  using assms by (simp add: moveField_def Let_def)

lemma moveField_total:
  assumes "wfIndex (normalized st)"
  shows "\<exists>st' r. moveField fid i tp st = Some (st', r)"
proof (cases "map_of (byId (normalized st)) fid")
  case None
  then show ?thesis by (auto simp: moveField_def)
next
  case (Some node)
  define b where "b = byId (normalized st)"
  define t where "t = targetParent tp node"
  from collectDescendants_terminates [OF wfIndex_rooted [OF assms] Some]
  obtain desc where d: "collectDescendants b fid = Some desc" unfolding b_def ..
  note mv = moveField_unfold [OF Some, of i tp, unfolded Let_def, folded b_def t_def]
  show ?thesis
  proof (cases "t = Some fid \<or> (truthy t \<and> map_of b (the t) = None)
                 \<or> (truthy t \<and> the t \<in> set desc)")
    case True
    with d have "moveField fid i tp st = Some (st, False)"
      unfolding mv by auto
    then show ?thesis by blast
  next
    case False
    then have "truthy t \<longrightarrow> map_of b (the t) \<noteq> None" by auto
    from attach_detach_Some [OF this]
    obtain b' rs' where
      "attachTo t fid (node \<lparr> parentId := (if truthy t then t else None) \<rparr>) (Some i)
         (detachFrom (parentId node) fid (b, rootIds (normalized st))) = Some (b', rs')"
      by blast
    with d False
    have "moveField fid i tp st
            = Some (st \<lparr> normalized := \<lparr> byId = b', rootIds = rs' \<rparr> \<rparr>, True)"
      unfolding mv by auto
    then show ?thesis by blast
  qed
qed

lemma sectionState_normalized:
  "normalized sectionState = normalizeDefinition sectionTree"
  by (simp add: sectionState_def setResponse_def loadDefinition_def)

lemma sectionState_responses:
  "responses sectionState = [(''c1'', textAnswer ''yes''), (''s1'', textAnswer ''kept'')]"
  by (simp add: sectionState_def setResponse_def loadDefinition_def)

lemma sectionTree_byId:
  "byId (normalizeDefinition sectionTree) =
     [(''c1'', \<lparr> defn = bareField ''c1'' ''text'', parentId = Some ''s1'', childIds = [], index = 0 \<rparr>),
      (''c2'', \<lparr> defn = bareField ''c2'' ''text'', parentId = Some ''s1'', childIds = [], index = 1 \<rparr>),
      (''s1'', \<lparr> defn = bareField ''s1'' ''section'', parentId = None, childIds = [''c1'', ''c2''], index = 0 \<rparr>),
      (''q'', \<lparr> defn = bareField ''q'' ''text'', parentId = None, childIds = [], index = 1 \<rparr>)]"
  by (simp add: sectionTree_def normalizeDefinition_def)

lemma sectionTree_rootIds: "rootIds (normalizeDefinition sectionTree) = [''s1'', ''q'']"
  by (simp add: sectionTree_def normalizeDefinition_def)

lemma sectionTree_wfIndex: "wfIndex (normalizeDefinition sectionTree)"
  by (simp add: wfIndex_def sectionTree_byId sectionTree_rootIds siblingsIndexed_def
      childrenOk_def listedOk_def eval_nat_numeral)

text \<open>
  Claim C10. Each structural edit returns with the responses it found: \<open>addField\<close> and
  \<open>updateField\<close> on every state, \<open>removeField\<close> and \<open>moveField\<close> on every state whose
  index is well formed (on which their walk of the descendants ends; whenever they
  return at all, the responses are the same). So the response of a removed field, or of
  a field below a removed section, stays in the map, and the response of a renamed field
  stays under the old ID.
\<close>

theorem edits_keep_responses:
  "(\<exists>st' r. addField registry ftype opts st = Some (st', r) \<and> responses st' = responses st)
   \<and> (\<exists>st' r. updateField fid patch st = Some (st', r) \<and> responses st' = responses st)
   \<and> (wfIndex (normalized st) \<longrightarrow>
        (\<exists>st' r. removeField fid st = Some (st', r) \<and> responses st' = responses st))
   \<and> (wfIndex (normalized st) \<longrightarrow>
        (\<exists>st' r. moveField fid i tp st = Some (st', r) \<and> responses st' = responses st))
   \<and> (\<forall>st' r. removeField fid st = Some (st', r) \<longrightarrow> responses st' = responses st)
   \<and> (\<forall>st' r. moveField fid i tp st = Some (st', r) \<longrightarrow> responses st' = responses st)"
  using addField_total [of registry ftype opts st] updateField_total [of fid patch st]
    removeField_total [of st fid] moveField_total [of st fid i tp]
    removeField_responses [of fid st] moveField_responses [of fid i tp st]
  by blast

theorem edits_keep_responses_witness:
  "wfIndex (normalized sectionState)
   \<and> map_option (\<lambda>(st', r). (r, responses st')) (removeField ''s1'' sectionState)
       = Some (True, [(''c1'', textAnswer ''yes''), (''s1'', textAnswer ''kept'')])
   \<and> map_option (\<lambda>(st', r). (r, responses st'))
        (updateField ''s1'' (emptyPatch \<lparr> patch_id := Some ''renamed'' \<rparr>) sectionState)
       = Some (True, [(''c1'', textAnswer ''yes''), (''s1'', textAnswer ''kept'')])
   \<and> map_option (\<lambda>(st', r). (r, responses st')) (moveField ''c1'' 0 (Some None) sectionState)
       = Some (True, [(''c1'', textAnswer ''yes''), (''s1'', textAnswer ''kept'')])
   \<and> map_option (\<lambda>(st', r). (r, responses st')) (addField BUILT_IN_FIELD_TYPES ''text'' None sectionState)
       = Some (Some ''text'', [(''c1'', textAnswer ''yes''), (''s1'', textAnswer ''kept'')])"
proof -
  have w: "wfIndex (normalized sectionState)"
    by (simp add: sectionState_normalized sectionTree_wfIndex)
  have r: "snd (the (removeField ''s1'' sectionState)) = True"
    by (simp add: removeField_def sectionState_normalized sectionTree_byId sectionTree_rootIds
        collectDescendants_def detachFrom_def Let_def truthy_def)
  have u: "snd (the (updateField ''s1'' (emptyPatch \<lparr> patch_id := Some ''renamed'' \<rparr>) sectionState)) = True"
    by (simp add: updateField_def sectionState_normalized sectionTree_byId sectionTree_rootIds
        Let_def truthy_def emptyPatch_def)
  have m: "snd (the (moveField ''c1'' 0 (Some None) sectionState)) = True"
    by (simp add: moveField_def sectionState_normalized sectionTree_byId sectionTree_rootIds
        detachFrom_def attachTo_def targetParent_def Let_def truthy_def)
  have a: "snd (the (addField BUILT_IN_FIELD_TYPES ''text'' None sectionState)) = Some ''text''"
    by (simp add: addField_def sectionState_normalized sectionTree_byId sectionTree_rootIds
        attachTo_def Let_def truthy_def getFieldTypeMeta_def BUILT_IN_FIELD_TYPES_def
        generateFieldId_def generateId_def)
  from edits_keep_responses [of BUILT_IN_FIELD_TYPES "''text''" None sectionState "''s1''"
      "emptyPatch \<lparr> patch_id := Some ''renamed'' \<rparr>" 0 "Some None"]
    edits_keep_responses [of BUILT_IN_FIELD_TYPES "''text''" None sectionState "''c1''"
      "emptyPatch \<lparr> patch_id := Some ''renamed'' \<rparr>" 0 "Some None"]
    w r u m a
  show ?thesis
    by (auto simp: sectionState_responses)
qed


section \<open>Updating the value of an option, a row or a column\<close>












end
